theory Spec2Isabelle
  imports Complex_Main
begin

section \<open>Python strings and library functions\<close>

text \<open>
  A Python \<open>str\<close> is the list of its code points (\<open>len\<close> is \<open>length\<close>, \<open>s[:n]\<close> is
  \<open>take n s\<close>, \<open>+\<close> is \<open>@\<close>); \<open>lit\<close> turns a literal into such a list. \<open>py_isspace\<close> is
  \<open>str.isspace\<close> on one code point: U+0009 to U+000D, U+001C to U+0020, U+0085, U+00A0,
  U+1680, U+2000 to U+200A, U+2028, U+2029, U+202F, U+205F and U+3000. \<open>py_strip\<close> is
  \<open>str.strip()\<close> with no argument. Floats are modelled as reals (no rounding, no NaN, no
  infinity).
\<close>

type_synonym ustring = "nat list"

definition lit :: "string \<Rightarrow> ustring" where
  "lit s = map of_char s"

definition py_isspace :: "nat \<Rightarrow> bool" where
  "py_isspace n =
     ((9 \<le> n \<and> n \<le> 13) \<or> (28 \<le> n \<and> n \<le> 32) \<or> n = 133 \<or> n = 160 \<or> n = 5760
      \<or> (8192 \<le> n \<and> n \<le> 8202) \<or> n = 8232 \<or> n = 8233 \<or> n = 8239 \<or> n = 8287
      \<or> n = 12288)"

definition py_strip :: "ustring \<Rightarrow> ustring" where
  "py_strip s = rev (dropWhile py_isspace (rev (dropWhile py_isspace s)))"

text \<open>
  \<open>s.encode('utf-8')\<close> raises \<open>UnicodeEncodeError\<close> exactly when \<open>s\<close> holds a surrogate
  code point (U+D800 to U+DFFF); the sqlite3 module encodes every \<open>str\<close> parameter it
  binds in the same way. \<open>bindable\<close> is that test on an optional parameter (\<open>None\<close> is
  bound as NULL).
\<close>

definition is_surrogate :: "nat \<Rightarrow> bool" where
  "is_surrogate n = (55296 \<le> n \<and> n \<le> 57343)"

definition utf8_encodable :: "ustring \<Rightarrow> bool" where
  "utf8_encodable s = list_all (\<lambda>n. \<not> is_surrogate n) s"

definition bindable :: "ustring option \<Rightarrow> bool" where
  "bindable v = (case v of None \<Rightarrow> True | Some s \<Rightarrow> utf8_encodable s)"

text \<open>SQLite's \<open>LENGTH\<close> of a text value counts the characters before the first NUL.\<close>

definition sql_length :: "ustring \<Rightarrow> nat" where
  "sql_length s = length (takeWhile (\<lambda>n. n \<noteq> 0) s)"

text \<open>A Python \<open>int\<close> that sqlite3 can bind: it fits a signed 64-bit integer.\<close>

definition sqlite_int64 :: "int \<Rightarrow> bool" where
  "sqlite_int64 n = (- (2 ^ 63) \<le> n \<and> n < 2 ^ 63)"

text \<open>
  The library functions the code calls and whose bodies are not part of the repository:
  \<open>md5\<close> is \<open>hashlib.md5(b).hexdigest()\<close> on the UTF-8 encoding \<open>b\<close> of an encodable
  text, \<open>json.dumps\<close> and \<open>json.loads\<close> (\<open>None\<close> is a \<open>JSONDecodeError\<close>). They are
  parameters of the model; \<open>'m\<close> is the type of non-empty metadata dictionaries that
  \<open>json.dumps\<close> serialises. A hex digest and the output of \<open>json.dumps\<close> are ASCII text
  and have the type \<open>string\<close>.
\<close>

record 'm lib =
  md5 :: "ustring \<Rightarrow> string"
  json_dumps :: "'m \<Rightarrow> string"
  json_loads :: "string \<Rightarrow> 'm option"

section \<open>utils.py: RetryWithBackoff\<close>

record 'e retry_with_backoff =
  max_attempts :: int
  base_delay :: real
  backoff_factor :: real
  max_delay :: real
  exceptions :: "'e \<Rightarrow> bool"

text \<open>
  What one call of the wrapper did: its outcome (\<open>Inl e\<close> is the exception that left
  the wrapper, \<open>Inr (Some v)\<close> the returned value, \<open>Inr None\<close> the \<open>return None\<close> after
  the loop), how often the wrapped function was invoked, the delays handed to
  \<open>time.sleep\<close> in order, and the state afterwards.
\<close>

record ('e, 'a, 's) retry_run =
  outcome :: "'e + 'a option"
  calls :: nat
  sleeps :: "real list"
  final :: 's

text \<open>The delay computed after the failure of the attempt with index \<open>attempt\<close>
  (lines 92 to 95 of utils.py).\<close>

definition retry_delay :: "'e retry_with_backoff \<Rightarrow> int \<Rightarrow> real" where
  "retry_delay p attempt =
     min (base_delay p * backoff_factor p ^ nat attempt) (max_delay p)"

text \<open>
  The loop \<open>for attempt in range(self.max_attempts)\<close> from index \<open>attempt\<close> on. The wrapped
  function is a state transformer that returns or raises; \<open>sleep\<close> is \<open>time.sleep\<close>
  acting on the same state.
\<close>

function retry_loop ::
  "'e retry_with_backoff \<Rightarrow> (real \<Rightarrow> 's \<Rightarrow> 's) \<Rightarrow> ('s \<Rightarrow> ('e + 'a) \<times> 's) \<Rightarrow> int \<Rightarrow> 's
     \<Rightarrow> ('e, 'a, 's) retry_run" where
  "retry_loop p sleep func attempt s =
     (if 0 \<le> attempt \<and> attempt < max_attempts p then
        (case func s of
           (Inr v, s') \<Rightarrow> \<lparr>outcome = Inr (Some v), calls = 1, sleeps = [], final = s'\<rparr>
         | (Inl e, s') \<Rightarrow>
             if exceptions p e then
               if attempt = max_attempts p - 1 then
                 \<lparr>outcome = Inl e, calls = 1, sleeps = [], final = s'\<rparr>
               else
                 (let delay = retry_delay p attempt;
                      r = retry_loop p sleep func (attempt + 1) (sleep delay s')
                  in r\<lparr>calls := Suc (calls r), sleeps := delay # sleeps r\<rparr>)
             else \<lparr>outcome = Inl e, calls = 1, sleeps = [], final = s'\<rparr>)
      else \<lparr>outcome = Inr None, calls = 0, sleeps = [], final = s\<rparr>)"
  by pat_completeness auto
termination
  by (relation "measure (\<lambda>(p, sleep, func, attempt, s). nat (max_attempts p - attempt))") auto

declare retry_loop.simps [simp del]

definition retry_wrapper ::
  "'e retry_with_backoff \<Rightarrow> (real \<Rightarrow> 's \<Rightarrow> 's) \<Rightarrow> ('s \<Rightarrow> ('e + 'a) \<times> 's) \<Rightarrow> 's
     \<Rightarrow> ('e, 'a, 's) retry_run" where
  "retry_wrapper p sleep func s = retry_loop p sleep func 0 s"

section \<open>database.py: TrendDatabase\<close>

text \<open>Logging, the \<open>PerformanceMonitor\<close> and the query and error counters of the class
  are left out: no result and no stored record depends on them.\<close>

datatype sqlite_error = OperationalError | IntegrityError | DatabaseError

text \<open>The exceptions of the model. \<open>UnicodeEncodeError\<close> is a subclass of \<open>ValueError\<close>;
  \<open>ValueError msg\<close> is a \<open>ValueError\<close> raised with the message \<open>msg\<close>. \<open>OverflowError\<close>
  is what sqlite3 raises for an \<open>int\<close> parameter outside 64 bits.\<close>

datatype error = ValueError string | UnicodeEncodeError | OverflowError | SqliteError sqlite_error

text \<open>
  A row of \<open>trend_data\<close>. Timestamps are whole seconds since the epoch: SQLite's
  \<open>CURRENT_TIMESTAMP\<close> and \<open>datetime('now', ...)\<close> both have a resolution of one second,
  and on the texts they produce for the years 0000 to 9999 the comparison of SQLite is
  the order of time.
\<close>

record trend_row =
  t_id :: int
  t_timestamp :: int
  t_source :: ustring
  t_topic :: ustring
  t_content :: "ustring option"
  t_url :: "ustring option"
  t_engagement_score :: real
  t_metadata :: "string option"
  t_created_at :: int
  t_updated_at :: int
  t_is_processed :: bool
  t_hash_value :: string

record analysis_row =
  a_id :: int
  a_timestamp :: int
  a_trends_summary :: ustring

record published_row =
  p_id :: int
  p_timestamp :: int
  p_platform :: ustring
  p_content :: ustring
  p_success :: bool

text \<open>
  The database file, the wall clock and a fault oracle. \<open>trend_data_seq\<close> is the
  \<open>sqlite_sequence\<close> entry of \<open>trend_data\<close> (\<open>AUTOINCREMENT\<close>). Every
  \<open>with self._get_connection() as conn\<close> block takes the next entry of \<open>faults\<close>:
  \<open>Some e\<close> makes the block raise \<open>e\<close> before its first statement is prepared, with
  the tables as they were (the connection is rolled back and closed), \<open>None\<close> or an
  exhausted oracle lets it run.
\<close>

record world =
  trend_data :: "trend_row list"
  trend_data_seq :: nat
  trend_analysis :: "analysis_row list"
  published_content :: "published_row list"
  clock :: real
  faults :: "sqlite_error option list"

definition sql_now :: "world \<Rightarrow> int" where
  "sql_now w = \<lfloor>clock w\<rfloor>"

text \<open>
  \<open>datetime('now', '-{} <unit>'.format(n))\<close>. For a negative \<open>n\<close> the modifier reads
  \<open>--n\<close>, which SQLite does not accept, and the value is NULL (\<open>None\<close>). It is NULL as
  well when the result lies before the first moment SQLite can represent, noon of 24
  November 4714 BC, which is second -210866760000 of the epoch.
\<close>

definition sql_datetime_now_minus :: "world \<Rightarrow> int \<Rightarrow> int \<Rightarrow> int option" where
  "sql_datetime_now_minus w n unit_seconds =
     (if n < 0 then None
      else if sql_now w - n * unit_seconds < - 210866760000 then None
      else Some (sql_now w - n * unit_seconds))"

definition time_sleep :: "real \<Rightarrow> world \<Rightarrow> world" where
  "time_sleep d w = w\<lparr>clock := clock w + d\<rparr>"

definition get_connection :: "world \<Rightarrow> sqlite_error option \<times> world" where
  "get_connection w =
     (case faults w of [] \<Rightarrow> (None, w) | f # fs \<Rightarrow> (f, w\<lparr>faults := fs\<rparr>))"

definition validate_trend_input :: "ustring \<Rightarrow> ustring \<Rightarrow> real \<Rightarrow> error + unit" where
  "validate_trend_input source topic engagement_score =
     (if source = [] \<or> length (py_strip source) = 0 then
        Inl (ValueError ''Source cannot be empty'')
      else if topic = [] \<or> length (py_strip topic) = 0 then
        Inl (ValueError ''Topic cannot be empty'')
      else if engagement_score < 0 then
        Inl (ValueError ''Engagement score must be non-negative'')
      else if length source > 50 then
        Inl (ValueError ''Source too long (max 50 characters)'')
      else if length topic > 200 then
        Inl (ValueError ''Topic too long (max 200 characters)'')
      else Inr ())"

text \<open>The text \<open>f"{source}:{topic}:{content or ''}"\<close> that is hashed.\<close>

definition content_str :: "ustring \<Rightarrow> ustring \<Rightarrow> ustring option \<Rightarrow> ustring" where
  "content_str source topic content =
     source @ lit '':'' @ topic @ lit '':'' @ (case content of None \<Rightarrow> [] | Some c \<Rightarrow> c)"

definition generate_content_hash ::
  "'m lib \<Rightarrow> ustring \<Rightarrow> ustring \<Rightarrow> ustring option \<Rightarrow> error + string" where
  "generate_content_hash L source topic content =
     (if utf8_encodable (content_str source topic content)
      then Inr (md5 L (content_str source topic content))
      else Inl UnicodeEncodeError)"

definition is_duplicate_trend :: "string \<Rightarrow> world \<Rightarrow> bool \<times> world" where
  "is_duplicate_trend content_hash w =
     (case get_connection w of
        (Some e, w') \<Rightarrow> (False, w')
      | (None, w') \<Rightarrow>
          (\<exists>r \<in> set (trend_data w').
              t_hash_value r = content_hash \<and> t_timestamp r > sql_now w' - 86400,
           w'))"

text \<open>
  The \<open>with\<close> block of \<open>insert_trend_data\<close> that holds the \<open>INSERT\<close>. sqlite3 binds the
  parameters before the statement runs; the statement evaluates the \<open>CHECK\<close> constraints
  of the table.
\<close>

definition insert_statement ::
  "ustring \<Rightarrow> ustring \<Rightarrow> ustring option \<Rightarrow> ustring option \<Rightarrow> real \<Rightarrow> string option \<Rightarrow> string
     \<Rightarrow> world \<Rightarrow> (error + int) \<times> world" where
  "insert_statement source topic content url engagement_score metadata_json content_hash w =
     (case get_connection w of
        (Some e, w') \<Rightarrow> (Inl (SqliteError e), w')
      | (None, w') \<Rightarrow>
          if \<not> (utf8_encodable source \<and> utf8_encodable topic \<and> bindable content
                \<and> bindable url) then
            (Inl UnicodeEncodeError, w')
          else if \<not> (engagement_score \<ge> 0 \<and> sql_length source > 0 \<and> sql_length topic > 0) then
            (Inl (SqliteError IntegrityError), w')
          else
            (let trend_id = int (Suc (trend_data_seq w'));
                 now = sql_now w';
                 row = \<lparr>t_id = trend_id, t_timestamp = now, t_source = source,
                        t_topic = topic, t_content = content, t_url = url,
                        t_engagement_score = engagement_score,
                        t_metadata = metadata_json, t_created_at = now,
                        t_updated_at = now, t_is_processed = False,
                        t_hash_value = content_hash\<rparr>
             in (Inr trend_id,
                 w'\<lparr>trend_data := trend_data w' @ [row],
                    trend_data_seq := Suc (trend_data_seq w')\<rparr>)))"

text \<open>The body of \<open>insert_trend_data\<close> (one attempt).\<close>

definition insert_trend_data_body ::
  "'m lib \<Rightarrow> ustring \<Rightarrow> ustring \<Rightarrow> ustring option \<Rightarrow> ustring option \<Rightarrow> real \<Rightarrow> 'm option
     \<Rightarrow> world \<Rightarrow> (error + int) \<times> world" where
  "insert_trend_data_body L source topic content url engagement_score metadata w =
     (case validate_trend_input source topic engagement_score of
        Inl e \<Rightarrow> (Inl e, w)
      | Inr _ \<Rightarrow>
          (case generate_content_hash L source topic content of
             Inl e \<Rightarrow> (Inl e, w)
           | Inr content_hash \<Rightarrow>
               (case is_duplicate_trend content_hash w of
                  (True, w1) \<Rightarrow> (Inr (- 1), w1)
                | (False, w1) \<Rightarrow>
                    (let metadata_json = map_option (json_dumps L) metadata
                     in insert_statement source topic content url engagement_score
                          metadata_json content_hash w1))))"

text \<open>\<open>@RetryWithBackoff(max_attempts=3, base_delay=0.5,
  exceptions=(sqlite3.OperationalError, sqlite3.DatabaseError))\<close>: every sqlite3 error
  is a \<open>DatabaseError\<close>; \<open>ValueError\<close>, \<open>UnicodeEncodeError\<close> and \<open>OverflowError\<close> are
  not.\<close>

definition insert_retry :: "error retry_with_backoff" where
  "insert_retry =
     \<lparr>max_attempts = 3, base_delay = 0.5, backoff_factor = 2.0, max_delay = 60.0,
      exceptions = (\<lambda>e. case e of SqliteError _ \<Rightarrow> True | _ \<Rightarrow> False)\<rparr>"

definition insert_trend_data ::
  "'m lib \<Rightarrow> ustring \<Rightarrow> ustring \<Rightarrow> ustring option \<Rightarrow> ustring option \<Rightarrow> real \<Rightarrow> 'm option
     \<Rightarrow> world \<Rightarrow> (error + int option) \<times> world" where
  "insert_trend_data L source topic content url engagement_score metadata w =
     (let r = retry_wrapper insert_retry time_sleep
                (insert_trend_data_body L source topic content url engagement_score metadata) w
      in (outcome r, final r))"

text \<open>
  \<open>get_recent_trend_data\<close>. \<open>if source:\<close> and \<open>if limit:\<close> are Python truth tests: an
  empty source string and a limit of 0 add no clause and no parameter. The parameters
  are bound in the order source, limit. SQLite reads a negative \<open>LIMIT\<close> as no limit,
  and compares the source with the whole text of the column.
  \<open>ORDER BY engagement_score DESC, timestamp DESC\<close> is modelled by a stable insertion
  sort (SQLite leaves the order of full ties open).
\<close>

datatype 'm row_metadata = Raw "string option" | Parsed 'm | EmptyDict

record 'm trend_dict =
  d_id :: int
  d_timestamp :: int
  d_source :: ustring
  d_topic :: ustring
  d_content :: "ustring option"
  d_url :: "ustring option"
  d_engagement_score :: real
  d_metadata :: "'m row_metadata"
  d_created_at :: int
  d_is_processed :: bool

definition row_before :: "trend_row \<Rightarrow> trend_row \<Rightarrow> bool" where
  "row_before a b =
     (t_engagement_score a > t_engagement_score b \<or>
      (t_engagement_score a = t_engagement_score b \<and> t_timestamp a \<ge> t_timestamp b))"

fun insert_row :: "trend_row \<Rightarrow> trend_row list \<Rightarrow> trend_row list" where
  "insert_row x [] = [x]"
| "insert_row x (y # ys) = (if row_before x y then x # y # ys else y # insert_row x ys)"

definition order_by :: "trend_row list \<Rightarrow> trend_row list" where
  "order_by rows = foldr insert_row rows []"

definition row_dict :: "'m lib \<Rightarrow> trend_row \<Rightarrow> 'm trend_dict" where
  "row_dict L row =
     \<lparr>d_id = t_id row, d_timestamp = t_timestamp row, d_source = t_source row,
      d_topic = t_topic row, d_content = t_content row, d_url = t_url row,
      d_engagement_score = t_engagement_score row,
      d_metadata =
        (case t_metadata row of
           None \<Rightarrow> Raw None
         | Some txt \<Rightarrow>
             if txt = [] then Raw (Some txt)
             else (case json_loads L txt of Some m \<Rightarrow> Parsed m | None \<Rightarrow> EmptyDict)),
      d_created_at = t_created_at row, d_is_processed = t_is_processed row\<rparr>"

definition get_recent_trend_data_body ::
  "'m lib \<Rightarrow> int \<Rightarrow> ustring option \<Rightarrow> int option \<Rightarrow> world
     \<Rightarrow> (error + 'm trend_dict list) \<times> world" where
  "get_recent_trend_data_body L hours source limit w =
     (case get_connection w of
        (Some e, w') \<Rightarrow> (Inl (SqliteError e), w')
      | (None, w') \<Rightarrow>
          (let cutoff = sql_datetime_now_minus w' hours 3600;
               in_window = (\<lambda>r. case cutoff of None \<Rightarrow> False | Some c \<Rightarrow> t_timestamp r \<ge> c);
               source_ok = (\<lambda>r. case source of
                                   None \<Rightarrow> True
                                 | Some s \<Rightarrow> if s = [] then True else t_source r = s);
               ordered = order_by (filter (\<lambda>r. in_window r \<and> source_ok r) (trend_data w'));
               rows = (case limit of
                         None \<Rightarrow> ordered
                       | Some n \<Rightarrow>
                           if n = 0 then ordered
                           else if n < 0 then ordered
                           else take (nat n) ordered)
           in if (case source of None \<Rightarrow> False | Some s \<Rightarrow> s \<noteq> [] \<and> \<not> utf8_encodable s) then
                (Inl UnicodeEncodeError, w')
              else if (case limit of None \<Rightarrow> False | Some n \<Rightarrow> n \<noteq> 0 \<and> \<not> sqlite_int64 n) then
                (Inl OverflowError, w')
              else (Inr (map (row_dict L) rows), w')))"

text \<open>\<open>@RetryWithBackoff(max_attempts=2, base_delay=0.5,
  exceptions=(sqlite3.OperationalError,))\<close>\<close>

definition get_recent_retry :: "error retry_with_backoff" where
  "get_recent_retry =
     \<lparr>max_attempts = 2, base_delay = 0.5, backoff_factor = 2.0, max_delay = 60.0,
      exceptions = (\<lambda>e. e = SqliteError OperationalError)\<rparr>"

definition get_recent_trend_data ::
  "'m lib \<Rightarrow> int \<Rightarrow> ustring option \<Rightarrow> int option \<Rightarrow> world
     \<Rightarrow> (error + 'm trend_dict list option) \<times> world" where
  "get_recent_trend_data L hours source limit w =
     (let r = retry_wrapper get_recent_retry time_sleep
                (get_recent_trend_data_body L hours source limit) w
      in (outcome r, final r))"

text \<open>
  \<open>cleanup_old_data\<close>. Python's sqlite3 module opens a transaction before a \<open>DELETE\<close>
  and does not commit it before \<open>VACUUM\<close>; SQLite refuses \<open>VACUUM\<close> inside a
  transaction with an \<open>OperationalError\<close>, which leaves the \<open>with\<close> block through the
  rollback of \<open>_get_connection\<close>. A \<open>SELECT\<close> opens no transaction.
\<close>

record cleanup_stats =
  trend_data_deleted :: nat
  trend_analysis_deleted :: nat
  published_content_deleted :: nat

definition sql_lt :: "int \<Rightarrow> int option \<Rightarrow> bool" where
  "sql_lt t cutoff = (case cutoff of None \<Rightarrow> False | Some c \<Rightarrow> t < c)"

definition cleanup_old_data :: "int \<Rightarrow> world \<Rightarrow> (error + cleanup_stats) \<times> world" where
  "cleanup_old_data days w =
     (case get_connection w of
        (Some e, w') \<Rightarrow> (Inl (SqliteError e), w')
      | (None, w') \<Rightarrow>
          (let cutoff = sql_datetime_now_minus w' days 86400;
               trend_data_count =
                 length (filter (\<lambda>r. sql_lt (t_timestamp r) cutoff) (trend_data w'));
               w1 = (if trend_data_count > 0 then
                       w'\<lparr>trend_data :=
                            filter (\<lambda>r. \<not> sql_lt (t_timestamp r) cutoff) (trend_data w')\<rparr>
                     else w');
               analysis_retention_days = days * 2;
               analysis_cutoff = sql_datetime_now_minus w' analysis_retention_days 86400;
               analysis_count =
                 length (filter (\<lambda>r. sql_lt (a_timestamp r) analysis_cutoff) (trend_analysis w1));
               w2 = (if analysis_count > 0 then
                       w1\<lparr>trend_analysis :=
                            filter (\<lambda>r. \<not> sql_lt (a_timestamp r) analysis_cutoff)
                              (trend_analysis w1)\<rparr>
                     else w1);
               published_count =
                 length (filter (\<lambda>r. sql_lt (p_timestamp r) cutoff) (published_content w2));
               w3 = (if published_count > 0 then
                       w2\<lparr>published_content :=
                            filter (\<lambda>r. \<not> sql_lt (p_timestamp r) cutoff)
                              (published_content w2)\<rparr>
                     else w2);
               in_transaction = (trend_data_count > 0 \<or> analysis_count > 0 \<or> published_count > 0)
           in if in_transaction then (Inl (SqliteError OperationalError), w')
              else (Inr \<lparr>trend_data_deleted = trend_data_count,
                         trend_analysis_deleted = analysis_count,
                         published_content_deleted = published_count\<rparr>, w3)))"

section \<open>collectors.py: DataCollector\<close>

text \<open>
  A raw trend dictionary as the collectors build it: text fields hold a \<open>str\<close> or are
  absent or \<open>None\<close> (both \<open>None\<close> here); \<open>engagement_score\<close> is absent, \<open>None\<close> or a
  number; \<open>metadata\<close> is absent or empty (\<open>None\<close>) or a non-empty dictionary.
\<close>

datatype raw_score = ScoreMissing | ScoreNone | Score real

record 'm raw_trend =
  r_source :: "ustring option"
  r_topic :: "ustring option"
  r_content :: "ustring option"
  r_url :: "ustring option"
  r_engagement_score :: raw_score
  r_metadata :: "'m option"

record 'm cleaned_trend =
  c_source :: ustring
  c_topic :: ustring
  c_content :: ustring
  c_url :: ustring
  c_engagement_score :: real
  c_metadata :: "'m option"
  c_collection_time :: real

definition py_truthy :: "ustring option \<Rightarrow> bool" where
  "py_truthy v = (case v of None \<Rightarrow> False | Some s \<Rightarrow> s \<noteq> [])"

definition py_str :: "ustring option \<Rightarrow> ustring" where
  "py_str v = (case v of None \<Rightarrow> lit ''None'' | Some s \<Rightarrow> s)"

text \<open>One pass of the loop body of \<open>_validate_and_clean_trends\<close>: \<open>None\<close> is
  \<open>continue\<close>, also after the \<open>TypeError\<close> of \<open>float(None)\<close>.\<close>

definition clean_trend :: "real \<Rightarrow> 'm raw_trend \<Rightarrow> 'm cleaned_trend option" where
  "clean_trend now trend =
     (if \<not> py_truthy (r_source trend) \<or> \<not> py_truthy (r_topic trend) then None
      else
        (case (case r_engagement_score trend of
                 ScoreMissing \<Rightarrow> Some 0
               | ScoreNone \<Rightarrow> None
               | Score x \<Rightarrow> Some x) of
           None \<Rightarrow> None
         | Some score \<Rightarrow>
             (let cleaned_trend =
                    \<lparr>c_source = py_strip (py_str (r_source trend)),
                     c_topic = take 200 (py_strip (py_str (r_topic trend))),
                     c_content = (if py_truthy (r_content trend)
                                  then take 1000 (py_str (r_content trend)) else []),
                     c_url = (if py_truthy (r_url trend)
                              then take 500 (py_str (r_url trend)) else []),
                     c_engagement_score = max 0 score,
                     c_metadata = r_metadata trend,
                     c_collection_time = now\<rparr>
              in if length (c_topic cleaned_trend) \<ge> 2 then Some cleaned_trend else None)))"

fun validate_loop ::
  "real \<Rightarrow> 'm raw_trend list \<Rightarrow> 'm cleaned_trend list \<Rightarrow> 'm cleaned_trend list" where
  "validate_loop now [] validated_trends = validated_trends"
| "validate_loop now (trend # trends) validated_trends =
     (case clean_trend now trend of
        None \<Rightarrow> validate_loop now trends validated_trends
      | Some cleaned \<Rightarrow> validate_loop now trends (validated_trends @ [cleaned]))"

definition validate_and_clean_trends ::
  "real \<Rightarrow> 'm raw_trend list \<Rightarrow> 'm cleaned_trend list" where
  "validate_and_clean_trends now trends = validate_loop now trends []"

text \<open>The rate limiter, for one caller at a time. \<open>now\<close> is \<open>time.time()\<close>;
  \<open>time.sleep\<close> advances it by the time slept.\<close>

record api_status_entry =
  available :: bool
  last_error :: "string option"
  error_count :: int

record collector =
  last_request_times :: "string \<rightharpoonup> real"
  min_request_intervals :: "string \<rightharpoonup> real"
  api_status :: "string \<rightharpoonup> api_status_entry"
  now :: real

definition rate_limit_check :: "string \<Rightarrow> collector \<Rightarrow> collector" where
  "rate_limit_check source c =
     (let current_time = now c;
          last_request = (case last_request_times c source of None \<Rightarrow> 0 | Some t \<Rightarrow> t);
          min_interval = (case min_request_intervals c source of None \<Rightarrow> 1 | Some i \<Rightarrow> i);
          time_since_last = current_time - last_request;
          c1 = (if time_since_last < min_interval then
                  (let sleep_time = min_interval - time_since_last;
                       error_count = (case api_status c source of
                                        None \<Rightarrow> 0 | Some st \<Rightarrow> error_count st);
                       sleep_time = (if error_count > 0 then
                                       (let adaptive_delay = min (real_of_int error_count * 0.5) 5.0
                                        in sleep_time + adaptive_delay)
                                     else sleep_time)
                   in c\<lparr>now := now c + sleep_time\<rparr>)
                else c)
      in c1\<lparr>last_request_times := (last_request_times c1)(source \<mapsto> now c1)\<rparr>)"

section \<open>main.py: TrendBot\<close>

text \<open>
  The loop of \<open>_store_trends_batch\<close> over the items not yet visited, for any insert
  operation. \<open>n\<close> is \<open>len(trends_data)\<close>. Besides the two counters the model keeps the
  result of every insert it attempted, in order.
\<close>

fun store_loop ::
  "('t \<Rightarrow> 's \<Rightarrow> ('e + 'r) \<times> 's) \<Rightarrow> nat \<Rightarrow> 't list \<Rightarrow> nat \<Rightarrow> nat \<Rightarrow> ('e + 'r) list \<Rightarrow> 's
     \<Rightarrow> nat \<times> nat \<times> ('e + 'r) list \<times> 's" where
  "store_loop ins n [] stored_count failed_count attempted s =
     (stored_count, failed_count, attempted, s)"
| "store_loop ins n (trend # rest) stored_count failed_count attempted s =
     (case ins trend s of
        (Inr trend_id, s') \<Rightarrow>
          store_loop ins n rest (stored_count + 1) failed_count (attempted @ [Inr trend_id]) s'
      | (Inl e, s') \<Rightarrow>
          (let failed_count = failed_count + 1 in
           if real failed_count > real n * 0.5 then
             (stored_count, failed_count, attempted @ [Inl e], s')
           else store_loop ins n rest stored_count failed_count (attempted @ [Inl e]) s'))"

text \<open>The call \<open>self.database.insert_trend_data(source=trend['source'], ...)\<close> of
  lines 251 to 258, on a cleaned trend.\<close>

definition insert_trend ::
  "'m lib \<Rightarrow> 'm cleaned_trend \<Rightarrow> world \<Rightarrow> (error + int option) \<times> world" where
  "insert_trend L trend w =
     insert_trend_data L (c_source trend) (c_topic trend) (Some (c_content trend))
       (Some (c_url trend)) (c_engagement_score trend) (c_metadata trend) w"

definition store_trends_batch :: "'m lib \<Rightarrow> 'm cleaned_trend list \<Rightarrow> world \<Rightarrow> nat \<times> world" where
  "store_trends_batch L trends_data w =
     (case store_loop (insert_trend L) (length trends_data) trends_data 0 0 [] w of
        (stored_count, failed_count, attempted, w') \<Rightarrow> (stored_count, w'))"

section \<open>Notions used in the statements\<close>

text \<open>Section 3 of the specification, in its words: a trend is valid for storage iff its
  source is non-empty and its topic has length in [2,200], both after trimming, and its
  engagement score is not negative.\<close>

definition spec_valid_for_storage :: "ustring \<Rightarrow> ustring \<Rightarrow> real \<Rightarrow> bool" where
  "spec_valid_for_storage source topic engagement_score =
     (py_strip source \<noteq> [] \<and> 2 \<le> length (py_strip topic) \<and> length (py_strip topic) \<le> 200
      \<and> 0 \<le> engagement_score)"

text \<open>The row the \<open>INSERT\<close> of \<open>insert_trend_data\<close> writes in the store \<open>w\<close>.\<close>

definition new_row ::
  "'m lib \<Rightarrow> ustring \<Rightarrow> ustring \<Rightarrow> ustring option \<Rightarrow> ustring option \<Rightarrow> real \<Rightarrow> 'm option
     \<Rightarrow> world \<Rightarrow> trend_row" where
  "new_row L source topic content url engagement_score metadata w =
     \<lparr>t_id = int (Suc (trend_data_seq w)), t_timestamp = sql_now w, t_source = source,
      t_topic = topic, t_content = content, t_url = url,
      t_engagement_score = engagement_score,
      t_metadata = map_option (json_dumps L) metadata, t_created_at = sql_now w,
      t_updated_at = sql_now w, t_is_processed = False,
      t_hash_value = md5 L (content_str source topic content)\<rparr>"

text \<open>No table holds a record that the three \<open>SELECT COUNT(*)\<close> of \<open>cleanup_old_data\<close>
  would count.\<close>

definition nothing_to_clean :: "int \<Rightarrow> world \<Rightarrow> bool" where
  "nothing_to_clean days w =
     (filter (\<lambda>r. sql_lt (t_timestamp r) (sql_datetime_now_minus w days 86400)) (trend_data w) = []
      \<and> filter (\<lambda>r. sql_lt (a_timestamp r) (sql_datetime_now_minus w (days * 2) 86400))
           (trend_analysis w) = []
      \<and> filter (\<lambda>r. sql_lt (p_timestamp r) (sql_datetime_now_minus w days 86400))
           (published_content w) = [])"

text \<open>The inserts of the items of a list, made one after the other from the state \<open>s\<close>:
  their results in order, and the state after the last.\<close>

fun insert_results :: "('t \<Rightarrow> 's \<Rightarrow> 'x \<times> 's) \<Rightarrow> 't list \<Rightarrow> 's \<Rightarrow> 'x list \<times> 's" where
  "insert_results ins [] s = ([], s)"
| "insert_results ins (trend # rest) s =
     (case ins trend s of
        (x, s') \<Rightarrow> (case insert_results ins rest s' of (xs, s'') \<Rightarrow> (x # xs, s'')))"

section \<open>Example inputs\<close>

text \<open>Operations for the retry wrapper whose state counts their invocations: one that
  always raises a retryable error, one that raises it twice and then returns 42, one
  that raises a \<open>ValueError\<close>; and a \<open>sleep\<close> that leaves that state alone.\<close>

definition always_fails :: "nat \<Rightarrow> (error + int) \<times> nat" where
  "always_fails n = (Inl (SqliteError OperationalError), Suc n)"

definition fails_twice :: "nat \<Rightarrow> (error + int) \<times> nat" where
  "fails_twice n = (if n < 2 then Inl (SqliteError OperationalError) else Inr 42, Suc n)"

definition fails_invalid :: "nat \<Rightarrow> (error + int) \<times> nat" where
  "fails_invalid n = (Inl (ValueError ''bad''), Suc n)"

definition no_sleep :: "real \<Rightarrow> nat \<Rightarrow> nat" where
  "no_sleep d n = n"

text \<open>The same operation that fails twice, on a state that holds a clock as well, and a
  \<open>sleep\<close> that advances that clock.\<close>

definition flaky :: "nat \<times> real \<Rightarrow> (error + int) \<times> (nat \<times> real)" where
  "flaky s =
     (if fst s < 2 then Inl (SqliteError OperationalError) else Inr 42, (Suc (fst s), snd s))"

definition clock_sleep :: "real \<Rightarrow> nat \<times> real \<Rightarrow> nat \<times> real" where
  "clock_sleep d s = (fst s, snd s + d)"

text \<open>Library functions for the examples: the digest of a text is the text itself, every
  code point read as a character.\<close>

definition example_lib :: "unit lib" where
  "example_lib = \<lparr>md5 = map char_of, json_dumps = (\<lambda>m. ''{}''), json_loads = (\<lambda>s. None)\<rparr>"

text \<open>An empty store at second 1000; the store after the insert of
  \<open>('github', 'isabelle', 'prover')\<close> with score 5; that store 1000 seconds later with a
  fault waiting for the next connection; and a store holding a second, more engaging
  row as well.\<close>

definition empty_world :: world where
  "empty_world = \<lparr>trend_data = [], trend_data_seq = 0, trend_analysis = [],
     published_content = [], clock = 1000, faults = []\<rparr>"

definition github_row :: trend_row where
  "github_row = \<lparr>t_id = 1, t_timestamp = 1000, t_source = lit ''github'',
     t_topic = lit ''isabelle'', t_content = Some (lit ''prover''), t_url = None,
     t_engagement_score = 5, t_metadata = None, t_created_at = 1000, t_updated_at = 1000,
     t_is_processed = False, t_hash_value = ''github:isabelle:prover''\<rparr>"

definition stored_world :: world where
  "stored_world = \<lparr>trend_data = [github_row], trend_data_seq = 1, trend_analysis = [],
     published_content = [], clock = 1000, faults = []\<rparr>"


definition hn_row :: trend_row where
  "hn_row = \<lparr>t_id = 2, t_timestamp = 1500, t_source = lit ''hackernews'',
     t_topic = lit ''rust'', t_content = None, t_url = None, t_engagement_score = 9,
     t_metadata = None, t_created_at = 1500, t_updated_at = 1500, t_is_processed = False,
     t_hash_value = ''hackernews:rust:''\<rparr>"

definition two_world :: world where
  "two_world = \<lparr>trend_data = [github_row, hn_row], trend_data_seq = 2, trend_analysis = [],
     published_content = [], clock = 2000, faults = []\<rparr>"

text \<open>A store at second 100000 with five rows: one of the highest score stored more
  than 24 hours ago, one of another source, and three \<open>github\<close> rows of the last 24
  hours with the scores 5, 7 and 5.\<close>

definition mk_row :: "int \<Rightarrow> int \<Rightarrow> string \<Rightarrow> real \<Rightarrow> trend_row" where
  "mk_row i ts src score =
     \<lparr>t_id = i, t_timestamp = ts, t_source = lit src, t_topic = lit ''topic'',
      t_content = None, t_url = None, t_engagement_score = score, t_metadata = None,
      t_created_at = ts, t_updated_at = ts, t_is_processed = False, t_hash_value = ''h''\<rparr>"

definition five_world :: world where
  "five_world =
     \<lparr>trend_data = [mk_row 1 1000 ''github'' 100, mk_row 2 50000 ''github'' 5,
                    mk_row 3 60000 ''hackernews'' 9, mk_row 4 70000 ''github'' 5,
                    mk_row 5 55000 ''github'' 7],
      trend_data_seq = 5, trend_analysis = [], published_content = [], clock = 100000,
      faults = []\<rparr>"

text \<open>A row stored at second 0, and a database holding it 35 days later.\<close>

definition old_row :: trend_row where
  "old_row = \<lparr>t_id = 1, t_timestamp = 0, t_source = lit ''test'', t_topic = lit ''old data'',
     t_content = Some (lit ''This should be cleaned up''), t_url = None,
     t_engagement_score = 0, t_metadata = None, t_created_at = 0, t_updated_at = 0,
     t_is_processed = False, t_hash_value = ''h''\<rparr>"

definition old_world :: world where
  "old_world = \<lparr>trend_data = [old_row], trend_data_seq = 1, trend_analysis = [],
     published_content = [], clock = 3024000, faults = []\<rparr>"

text \<open>A source of 51 characters \<open>x\<close>; the source that is a NUL followed by \<open>abc\<close>;
  and the content that is \<open>a\<close> followed by the lone surrogate U+D800.\<close>

definition long_source :: ustring where
  "long_source = replicate 51 120"

definition nul_source :: ustring where
  "nul_source = 0 # lit ''abc''"

definition surrogate_content :: ustring where
  "surrogate_content = lit ''a'' @ [55296]"

text \<open>A raw trend with a negative score; a cleaned trend; the cleaned trend that
  validate-and-clean makes of a whitespace-only source; and the store after the first
  insert of the cleaned trend into the empty store.\<close>

definition negative_trend :: "unit raw_trend" where
  "negative_trend = \<lparr>r_source = Some (lit ''test''), r_topic = Some (lit ''Negative engagement''),
     r_content = Some (lit ''This has negative engagement''), r_url = None,
     r_engagement_score = Score (- 10), r_metadata = None\<rparr>"

definition github_trend :: "unit cleaned_trend" where
  "github_trend = \<lparr>c_source = lit ''github'', c_topic = lit ''isabelle'',
     c_content = lit ''prover'', c_url = [], c_engagement_score = 5, c_metadata = None,
     c_collection_time = 1000\<rparr>"

definition blank_trend :: "unit cleaned_trend" where
  "blank_trend = \<lparr>c_source = [], c_topic = lit ''ab'', c_content = [],
     c_url = [], c_engagement_score = 0, c_metadata = None, c_collection_time = 1000\<rparr>"

definition github_world :: world where
  "github_world = empty_world\<lparr>trend_data :=
       [new_row example_lib (lit ''github'') (lit ''isabelle'') (Some (lit ''prover''))
          (Some []) 5 None empty_world],
     trend_data_seq := 1\<rparr>"

text \<open>A collector that called the gate for \<open>test_source\<close> at time 100 and has counted
  three errors for that source (no interval configured: 1), reading the clock at 101.2,
  and the same collector reading it at 100.25.\<close>

definition late_collector :: collector where
  "late_collector =
     \<lparr>last_request_times = [''test_source'' \<mapsto> 100], min_request_intervals = Map.empty,
      api_status = [''test_source'' \<mapsto>
                      \<lparr>available = False, last_error = None, error_count = 3\<rparr>],
      now = 101.2\<rparr>"

definition early_collector :: collector where
  "early_collector = late_collector\<lparr>now := 100.25\<rparr>"

section \<open>Basic facts\<close>

subsection \<open>Strings\<close>

lemma py_strip_Nil [simp]: "py_strip [] = []"
  by (simp add: py_strip_def)

lemma py_strip_github [simp]: "py_strip (lit ''github'') = lit ''github''"
  by (simp add: py_strip_def py_isspace_def lit_def)

lemma py_strip_isabelle [simp]: "py_strip (lit ''isabelle'') = lit ''isabelle''"
  by (simp add: py_strip_def py_isspace_def lit_def)

lemma py_strip_long_source [simp]: "py_strip long_source = long_source"
  by (simp add: py_strip_def long_source_def dropWhile_replicate py_isspace_def)

lemma py_strip_examples [simp]:
  "py_strip (lit ''hn'') = lit ''hn''" "py_strip (lit ''a'') = lit ''a''"
  "py_strip (lit ''topic'') = lit ''topic''" "py_strip nul_source = nul_source"
  by (simp_all add: py_strip_def py_isspace_def lit_def nul_source_def)

lemma lit_Nil_iff [simp]: "(lit s = []) = (s = [])"
  by (simp add: lit_def)

lemma length_lit [simp]: "length (lit s) = length s"
  by (simp add: lit_def)

lemma of_char_less_256: "(of_char c :: nat) < 256"
proof -
  have "(of_char c :: nat) mod 256 < 256"
    by (rule mod_less_divisor) simp
  then show ?thesis
    by simp
qed

lemma utf8_encodable_lit [simp]: "utf8_encodable (lit s)"
proof -
  have "\<not> is_surrogate (of_char c)" for c
    using of_char_less_256 [of c] unfolding is_surrogate_def by linarith
  then show ?thesis
    by (simp add: utf8_encodable_def lit_def list_all_iff)
qed

lemma utf8_encodable_simps [simp]:
  "utf8_encodable []"
  "utf8_encodable (a @ b) = (utf8_encodable a \<and> utf8_encodable b)"
  "utf8_encodable (n # a) = (\<not> is_surrogate n \<and> utf8_encodable a)"
  by (simp_all add: utf8_encodable_def)

lemma utf8_encodable_content_str:
  "utf8_encodable (content_str source topic content)
     = (utf8_encodable source \<and> utf8_encodable topic \<and> bindable content)"
  by (simp add: content_str_def bindable_def split: option.splits)

lemma utf8_encodable_examples [simp]:
  "utf8_encodable long_source" "utf8_encodable nul_source" "\<not> utf8_encodable surrogate_content"
  by (simp_all add: long_source_def nul_source_def surrogate_content_def is_surrogate_def)
     (simp add: utf8_encodable_def list_all_iff is_surrogate_def)

lemma sql_length_pos: "(0 < sql_length s) = (s \<noteq> [] \<and> hd s \<noteq> 0)"
  by (cases s) (simp_all add: sql_length_def)

lemma sql_length_examples [simp]:
  "sql_length nul_source = 0" "0 < sql_length (lit ''github'')"
  "0 < sql_length (lit ''isabelle'')" "0 < sql_length (lit ''topic'')"
  "0 < sql_length (lit ''hn'')" "0 < sql_length (lit ''a'')"
  by (simp_all add: sql_length_def nul_source_def lit_def)

lemma md5_example [simp]: "md5 example_lib (lit s) = s"
  by (simp add: example_lib_def lit_def comp_def)

lemma content_str_lit:
  "content_str (lit a) (lit b) (Some (lit c)) = lit (a @ '':'' @ b @ '':'' @ c)"
  "content_str (lit a) (lit b) None = lit (a @ '':'' @ b @ '':'')"
  by (simp_all add: content_str_def lit_def)

subsection \<open>The retry loop\<close>

lemma retry_loop_done:
  "\<not> (0 \<le> attempt \<and> attempt < max_attempts p) \<Longrightarrow>
   retry_loop p sleep func attempt s = \<lparr>outcome = Inr None, calls = 0, sleeps = [], final = s\<rparr>"
  by (subst retry_loop.simps) auto

lemma retry_loop_returns:
  "0 \<le> attempt \<Longrightarrow> attempt < max_attempts p \<Longrightarrow> func s = (Inr v, s') \<Longrightarrow>
   retry_loop p sleep func attempt s = \<lparr>outcome = Inr (Some v), calls = 1, sleeps = [], final = s'\<rparr>"
  by (simp add: retry_loop.simps)

lemma retry_loop_not_retryable:
  "0 \<le> attempt \<Longrightarrow> attempt < max_attempts p \<Longrightarrow> func s = (Inl e, s') \<Longrightarrow> \<not> exceptions p e \<Longrightarrow>
   retry_loop p sleep func attempt s = \<lparr>outcome = Inl e, calls = 1, sleeps = [], final = s'\<rparr>"
  by (simp add: retry_loop.simps)

lemma retry_loop_last:
  "0 \<le> attempt \<Longrightarrow> attempt = max_attempts p - 1 \<Longrightarrow> func s = (Inl e, s') \<Longrightarrow> exceptions p e \<Longrightarrow>
   retry_loop p sleep func attempt s = \<lparr>outcome = Inl e, calls = 1, sleeps = [], final = s'\<rparr>"
  by (simp add: retry_loop.simps)

lemma retry_loop_again:
  "0 \<le> attempt \<Longrightarrow> attempt < max_attempts p - 1 \<Longrightarrow> func s = (Inl e, s') \<Longrightarrow> exceptions p e \<Longrightarrow>
   retry_loop p sleep func attempt s =
     (let r = retry_loop p sleep func (attempt + 1) (sleep (retry_delay p attempt) s')
      in r\<lparr>calls := Suc (calls r), sleeps := retry_delay p attempt # sleeps r\<rparr>)"
  by (subst retry_loop.simps) (simp add: Let_def)

text \<open>An exception that leaves the wrapper was raised by an invocation that ended in
  the final state; a property of the state that the failing invocations and the sleeps
  preserve holds where that invocation started.\<close>

lemma retry_loop_error_from_func:
  assumes "outcome (retry_loop p sleep func attempt s) = Inl e"
    and "I s"
    and "\<And>s e s'. I s \<Longrightarrow> func s = (Inl e, s') \<Longrightarrow> I s'"
    and "\<And>d s. I s \<Longrightarrow> I (sleep d s)"
  shows "\<exists>s0. I s0 \<and> func s0 = (Inl e, final (retry_loop p sleep func attempt s))"
  using assms
proof (induction p sleep func attempt s rule: retry_loop.induct)
  case (1 p sleep func attempt s)
  note out = 1(2) and start = 1(3) and step = 1(4) and slept = 1(5)
  show ?case
  proof (cases "0 \<le> attempt \<and> attempt < max_attempts p")
    case False
    with out show ?thesis by (simp add: retry_loop_done)
  next
    case inrange: True
    obtain res s' where fs: "func s = (res, s')" by (cases "func s")
    show ?thesis
    proof (cases res)
      case (Inr v)
      with fs inrange out show ?thesis by (simp add: retry_loop_returns)
    next
      case (Inl e')
      show ?thesis
      proof (cases "exceptions p e' \<and> attempt \<noteq> max_attempts p - 1")
        case False
        with fs Inl inrange out start show ?thesis
          by (cases "exceptions p e'") (auto simp: retry_loop_not_retryable retry_loop_last)
      next
        case True
        with inrange have lt: "attempt < max_attempts p - 1" and nn: "0 \<le> attempt" by simp_all
        let ?r = "retry_loop p sleep func (attempt + 1) (sleep (retry_delay p attempt) s')"
        have eq: "retry_loop p sleep func attempt s =
            ?r\<lparr>calls := Suc (calls ?r), sleeps := retry_delay p attempt # sleeps ?r\<rparr>"
          using retry_loop_again [OF nn lt, of func s e' s' sleep] fs Inl True
          by (simp add: Let_def)
        with out have out': "outcome ?r = Inl e" by simp
        have fs': "func s = (Inl e', s')"
          using fs Inl by simp
        have "I s'"
          by (rule step [OF start fs'])
        then have start': "I (sleep (retry_delay p attempt) s')"
          by (rule slept)
        have ex: "exceptions p e'" and notlast: "attempt \<noteq> max_attempts p - 1"
          using True by simp_all
        from 1(1) [OF inrange fs [symmetric] Inl ex notlast refl out' start' step slept] eq
        show ?thesis by simp
      qed
    qed
  qed
qed

text \<open>A value the wrapper returns was returned by an invocation that ended in the
  final state; a property of the state that the failing invocations and the sleeps
  preserve holds where that invocation started.\<close>

lemma retry_loop_value_from_func:
  assumes "outcome (retry_loop p sleep func attempt s) = Inr (Some v)"
    and "I s"
    and "\<And>s e s'. I s \<Longrightarrow> func s = (Inl e, s') \<Longrightarrow> I s'"
    and "\<And>d s. I s \<Longrightarrow> I (sleep d s)"
  shows "\<exists>s0. I s0 \<and> func s0 = (Inr v, final (retry_loop p sleep func attempt s))"
  using assms
proof (induction p sleep func attempt s rule: retry_loop.induct)
  case (1 p sleep func attempt s)
  note out = 1(2) and start = 1(3) and step = 1(4) and slept = 1(5)
  show ?case
  proof (cases "0 \<le> attempt \<and> attempt < max_attempts p")
    case False
    with out show ?thesis by (simp add: retry_loop_done)
  next
    case inrange: True
    obtain res s' where fs: "func s = (res, s')" by (cases "func s")
    show ?thesis
    proof (cases res)
      case (Inr v')
      with fs inrange out start show ?thesis by (auto simp: retry_loop_returns)
    next
      case (Inl e')
      show ?thesis
      proof (cases "exceptions p e' \<and> attempt \<noteq> max_attempts p - 1")
        case False
        with fs Inl inrange out show ?thesis
          by (cases "exceptions p e'") (simp_all add: retry_loop_not_retryable retry_loop_last)
      next
        case True
        with inrange have lt: "attempt < max_attempts p - 1" and nn: "0 \<le> attempt" by simp_all
        let ?r = "retry_loop p sleep func (attempt + 1) (sleep (retry_delay p attempt) s')"
        have eq: "retry_loop p sleep func attempt s =
            ?r\<lparr>calls := Suc (calls ?r), sleeps := retry_delay p attempt # sleeps ?r\<rparr>"
          using retry_loop_again [OF nn lt, of func s e' s' sleep] fs Inl True
          by (simp add: Let_def)
        with out have out': "outcome ?r = Inr (Some v)" by simp
        have fs': "func s = (Inl e', s')"
          using fs Inl by simp
        have "I s'"
          by (rule step [OF start fs'])
        then have start': "I (sleep (retry_delay p attempt) s')"
          by (rule slept)
        have ex: "exceptions p e'" and notlast: "attempt \<noteq> max_attempts p - 1"
          using True by simp_all
        from 1(1) [OF inrange fs [symmetric] Inl ex notlast refl out' start' step slept] eq
        show ?thesis by simp
      qed
    qed
  qed
qed

text \<open>
  After \<open>k\<close> retryable failures, with attempts left: \<open>st j\<close> is the state in which
  invocation \<open>j + 1\<close> starts, \<open>af j\<close> the state it leaves and \<open>er j\<close> the error it
  raises. The loop goes on at index \<open>k\<close> from the state \<open>st k\<close>.
\<close>

lemma retry_loop_after_failures:
  assumes "st 0 = s"
    and "int k < max_attempts p"
    and "\<forall>j<k. func (st j) = (Inl (er j), af j) \<and> exceptions p (er j)
               \<and> st (Suc j) = sleep (retry_delay p (int j)) (af j)"
  shows "retry_loop p sleep func 0 s =
           (retry_loop p sleep func (int k) (st k))
             \<lparr>calls := calls (retry_loop p sleep func (int k) (st k)) + k,
              sleeps := map (\<lambda>j. retry_delay p (int j)) [0..<k]
                        @ sleeps (retry_loop p sleep func (int k) (st k))\<rparr>"
  using assms(2,3)
proof (induction k)
  case 0
  show ?case using assms(1) by simp
next
  case (Suc k)
  have lt: "int k < max_attempts p - 1"
    using Suc.prems(1) by simp
  have fk: "func (st k) = (Inl (er k), af k)" and ek: "exceptions p (er k)"
    and sk: "st (Suc k) = sleep (retry_delay p (int k)) (af k)"
    using Suc.prems(2) by simp_all
  have ih: "retry_loop p sleep func 0 s =
           (retry_loop p sleep func (int k) (st k))
             \<lparr>calls := calls (retry_loop p sleep func (int k) (st k)) + k,
              sleeps := map (\<lambda>j. retry_delay p (int j)) [0..<k]
                        @ sleeps (retry_loop p sleep func (int k) (st k))\<rparr>"
    using Suc.IH Suc.prems by simp
  have nn: "0 \<le> int k" by simp
  have step: "retry_loop p sleep func (int k) (st k) =
      (let r = retry_loop p sleep func (int k + 1) (sleep (retry_delay p (int k)) (af k))
       in r\<lparr>calls := Suc (calls r), sleeps := retry_delay p (int k) # sleeps r\<rparr>)"
    using retry_loop_again [of "int k" p func "st k" "er k" "af k" sleep] nn lt fk ek
    by simp
  show ?case
    using ih step sk by (simp add: Let_def add.commute)
qed

lemma flaky_run: "retry_wrapper insert_retry clock_sleep flaky (0, 0)
   = \<lparr>outcome = Inr (Some 42), calls = 3, sleeps = [0.5, 1], final = (3, 1.5)\<rparr>"
  by (simp add: retry_wrapper_def retry_loop.simps insert_retry_def flaky_def clock_sleep_def
      retry_delay_def Let_def)

lemma insert_retry_fields:
  "max_attempts insert_retry = 3"
  "exceptions insert_retry (SqliteError x)"
  "\<not> exceptions insert_retry (ValueError msg)"
  "\<not> exceptions insert_retry UnicodeEncodeError"
  "\<not> exceptions insert_retry OverflowError"
  by (simp_all add: insert_retry_def)

lemma insert_retry_delay: "min (base_delay insert_retry * backoff_factor insert_retry ^ n) (max_delay insert_retry)
   = min (0.5 * 2 ^ n) 60"
  by (simp add: insert_retry_def)

subsection \<open>Validation, duplicate check and insert\<close>

lemma get_connection_no_faults:
  "faults w = [] \<Longrightarrow> get_connection w = (None, w)"
  by (simp add: get_connection_def)

lemma validate_ok_constraints:
  "validate_trend_input source topic engagement_score = Inr u \<Longrightarrow>
   engagement_score \<ge> 0 \<and> length source > 0 \<and> length topic > 0"
  by (auto simp: validate_trend_input_def split: if_splits)

lemma validate_trend_input_rejects_iff:
  "(\<exists>msg. validate_trend_input source topic engagement_score = Inl (ValueError msg))
   \<longleftrightarrow> (py_strip source = [] \<or> py_strip topic = [] \<or> engagement_score < 0
        \<or> length source > 50 \<or> length topic > 200)"
  by (auto simp: validate_trend_input_def)

lemma validate_trend_input_cases:
  "(\<exists>msg. validate_trend_input source topic engagement_score = Inl (ValueError msg))
   \<or> validate_trend_input source topic engagement_score = Inr ()"
  by (auto simp: validate_trend_input_def)

lemma validate_example [simp]:
  "validate_trend_input (lit ''github'') (lit ''isabelle'') 5 = Inr ()"
  by (simp add: validate_trend_input_def)

lemma validate_nul_example [simp]:
  "validate_trend_input nul_source (lit ''topic'') 0 = Inr ()"
  by (simp add: validate_trend_input_def) (simp add: nul_source_def)

lemma hash_example [simp]:
  "generate_content_hash example_lib (lit ''github'') (lit ''isabelle'') (Some (lit ''prover''))
     = Inr ''github:isabelle:prover''"
  by (simp add: generate_content_hash_def content_str_lit)

lemma generate_content_hash_encodable:
  "utf8_encodable (content_str source topic content) \<Longrightarrow>
   generate_content_hash L source topic content = Inr (md5 L (content_str source topic content))"
  by (simp add: generate_content_hash_def)

lemma sql_now_simps [simp]:
  "sql_now (w\<lparr>faults := fs\<rparr>) = sql_now w"
  "sql_now (w\<lparr>trend_data := rows\<rparr>) = sql_now w"
  "sql_now (w\<lparr>trend_data_seq := n\<rparr>) = sql_now w"
  "sql_now (w\<lparr>clock := c\<rparr>) = \<lfloor>c\<rfloor>"
  by (simp_all add: sql_now_def)


lemma is_duplicate_trend_no_fault:
  "faults w = [] \<Longrightarrow>
   is_duplicate_trend h w =
     (\<exists>r \<in> set (trend_data w). t_hash_value r = h \<and> t_timestamp r > sql_now w - 86400, w)"
  by (simp add: is_duplicate_trend_def get_connection_def)

lemma is_duplicate_trend_keeps_rows:
  "is_duplicate_trend h w = (b, w') \<Longrightarrow> trend_data w' = trend_data w"
  by (auto simp: is_duplicate_trend_def get_connection_def split: list.splits option.splits)

text \<open>The \<open>INSERT\<close> block: when it stores, what it never returns, and what it leaves when
  it raises.\<close>

lemma insert_statement_stored:
  assumes "get_connection w = (None, w')"
    and "utf8_encodable source" "utf8_encodable topic" "bindable content" "bindable url"
    and "0 \<le> engagement_score" "0 < sql_length source" "0 < sql_length topic"
  shows "insert_statement source topic content url engagement_score metadata_json h w
           = (Inr (int (Suc (trend_data_seq w'))),
              w'\<lparr>trend_data := trend_data w'
                   @ [\<lparr>t_id = int (Suc (trend_data_seq w')), t_timestamp = sql_now w',
                       t_source = source, t_topic = topic, t_content = content, t_url = url,
                       t_engagement_score = engagement_score, t_metadata = metadata_json,
                       t_created_at = sql_now w', t_updated_at = sql_now w',
                       t_is_processed = False, t_hash_value = h\<rparr>],
                 trend_data_seq := Suc (trend_data_seq w')\<rparr>)"
  using assms by (simp add: insert_statement_def Let_def)


lemma insert_statement_error:
  "insert_statement source topic content url engagement_score metadata_json h w = (Inl e, w')
   \<Longrightarrow> trend_data w' = trend_data w
       \<and> (\<forall>msg. e \<noteq> ValueError msg)
       \<and> (e = UnicodeEncodeError
            \<longrightarrow> \<not> (utf8_encodable source \<and> utf8_encodable topic \<and> bindable content
                    \<and> bindable url))"
  by (auto simp: insert_statement_def get_connection_def Let_def
      split: list.splits option.splits if_splits)

lemma insert_body_invalid:
  "validate_trend_input source topic engagement_score = Inl e \<Longrightarrow>
   insert_trend_data_body L source topic content url engagement_score metadata w = (Inl e, w)"
  by (simp add: insert_trend_data_body_def)

lemma insert_body_unencodable:
  "validate_trend_input source topic engagement_score = Inr u \<Longrightarrow>
   \<not> utf8_encodable (content_str source topic content) \<Longrightarrow>
   insert_trend_data_body L source topic content url engagement_score metadata w
     = (Inl UnicodeEncodeError, w)"
  by (simp add: insert_trend_data_body_def generate_content_hash_def)

lemma insert_body_duplicate:
  assumes "validate_trend_input source topic engagement_score = Inr u"
    and "utf8_encodable (content_str source topic content)"
    and "faults w = []"
    and "\<exists>r \<in> set (trend_data w).
           t_hash_value r = md5 L (content_str source topic content)
           \<and> t_timestamp r > sql_now w - 86400"
  shows "insert_trend_data_body L source topic content url engagement_score metadata w
           = (Inr (- 1), w)"
proof -
  have "is_duplicate_trend (md5 L (content_str source topic content)) w = (True, w)"
    using assms(3,4) by (simp add: is_duplicate_trend_no_fault)
  then show ?thesis
    using assms(1,2) by (simp add: insert_trend_data_body_def generate_content_hash_def)
qed

lemma insert_body_stored:
  assumes "validate_trend_input source topic engagement_score = Inr u"
    and "utf8_encodable (content_str source topic content)"
    and "bindable url"
    and "0 < sql_length source" "0 < sql_length topic"
    and "faults w = []"
    and "\<not> (\<exists>r \<in> set (trend_data w).
           t_hash_value r = md5 L (content_str source topic content)
           \<and> t_timestamp r > sql_now w - 86400)"
  shows "insert_trend_data_body L source topic content url engagement_score metadata w
           = (Inr (int (Suc (trend_data_seq w))),
              w\<lparr>trend_data := trend_data w
                   @ [new_row L source topic content url engagement_score metadata w],
                 trend_data_seq := Suc (trend_data_seq w)\<rparr>)"
proof -
  have d: "is_duplicate_trend (md5 L (content_str source topic content)) w = (False, w)"
    using assms(6,7) by (simp add: is_duplicate_trend_no_fault)
  have c: "get_connection w = (None, w)"
    using assms(6) by (rule get_connection_no_faults)
  have e: "utf8_encodable source" "utf8_encodable topic" "bindable content"
    using assms(2) by (simp_all add: utf8_encodable_content_str)
  have s: "0 \<le> engagement_score"
    using validate_ok_constraints [OF assms(1)] by simp
  show ?thesis
    using assms(1,2) d
    by (simp add: insert_trend_data_body_def generate_content_hash_def Let_def new_row_def
        insert_statement_stored [OF c e assms(3) s assms(4,5)])
qed



text \<open>What an attempt that raises leaves, and which errors it can raise.\<close>

lemma insert_body_error:
  assumes "insert_trend_data_body L source topic content url engagement_score metadata w
             = (Inl e, w')"
  shows "trend_data w' = trend_data w
       \<and> (validate_trend_input source topic engagement_score = Inr ()
            \<longrightarrow> (\<forall>msg. e \<noteq> ValueError msg))
       \<and> (e = UnicodeEncodeError
            \<longrightarrow> validate_trend_input source topic engagement_score = Inr ()
                \<and> (\<not> utf8_encodable (content_str source topic content) \<or> \<not> bindable url))"
proof (cases "validate_trend_input source topic engagement_score")
  case (Inl a)
  then show ?thesis
    using assms validate_trend_input_cases [of source topic engagement_score]
    by (auto simp: insert_body_invalid)
next
  case (Inr u)
  show ?thesis
  proof (cases "utf8_encodable (content_str source topic content)")
    case False
    with Inr assms show ?thesis by (simp add: insert_body_unencodable)
  next
    case True
    obtain b w1 where d: "is_duplicate_trend (md5 L (content_str source topic content)) w = (b, w1)"
      by (cases "is_duplicate_trend (md5 L (content_str source topic content)) w")
    have rows: "trend_data w1 = trend_data w"
      using d by (rule is_duplicate_trend_keeps_rows)
    have notdup: "\<not> b"
      using assms Inr True d
      by (auto simp: insert_trend_data_body_def generate_content_hash_def)
    have st: "insert_statement source topic content url engagement_score
               (map_option (json_dumps L) metadata) (md5 L (content_str source topic content)) w1
              = (Inl e, w')"
      using assms Inr True d notdup
      by (simp add: insert_trend_data_body_def generate_content_hash_def Let_def)
    from insert_statement_error [OF st] rows Inr True show ?thesis
      by (auto simp: utf8_encodable_content_str)
  qed
qed

lemma insert_retry_body_keeps_rows:
  "trend_data s = trend_data w \<Longrightarrow>
   insert_trend_data_body L source topic content url engagement_score metadata s = (Inl e, s')
   \<Longrightarrow> trend_data s' = trend_data w"
  using insert_body_error [of L source topic content url engagement_score metadata s e s']
  by simp

lemma insert_trend_data_returns:
  "insert_trend_data_body L source topic content url engagement_score metadata w = (Inr v, w')
   \<Longrightarrow> insert_trend_data L source topic content url engagement_score metadata w
         = (Inr (Some v), w')"
  by (simp add: insert_trend_data_def retry_wrapper_def retry_loop_returns insert_retry_fields)

lemma insert_trend_data_not_retried:
  "insert_trend_data_body L source topic content url engagement_score metadata w = (Inl e, w')
   \<Longrightarrow> \<not> exceptions insert_retry e
   \<Longrightarrow> insert_trend_data L source topic content url engagement_score metadata w = (Inl e, w')"
  by (simp add: insert_trend_data_def retry_wrapper_def retry_loop_not_retryable
      insert_retry_fields)

lemma insert_example_first:
  "insert_trend_data example_lib (lit ''github'') (lit ''isabelle'') (Some (lit ''prover'')) None
     5 None empty_world = (Inr (Some 1), stored_world)"
proof -
  have "insert_trend_data_body example_lib (lit ''github'') (lit ''isabelle'')
          (Some (lit ''prover'')) None 5 None empty_world
        = (Inr (int (Suc (trend_data_seq empty_world))),
           empty_world\<lparr>trend_data := trend_data empty_world
                @ [new_row example_lib (lit ''github'') (lit ''isabelle'') (Some (lit ''prover''))
                     None 5 None empty_world],
              trend_data_seq := Suc (trend_data_seq empty_world)\<rparr>)"
    by (rule insert_body_stored [OF validate_example])
       (simp_all add: utf8_encodable_content_str bindable_def empty_world_def)
  then have "insert_trend_data_body example_lib (lit ''github'') (lit ''isabelle'')
          (Some (lit ''prover'')) None 5 None empty_world = (Inr 1, stored_world)"
    by (simp add: empty_world_def stored_world_def github_row_def new_row_def sql_now_def
        content_str_lit)
  then show ?thesis by (rule insert_trend_data_returns)
qed

text \<open>The source that begins with a NUL passes the validation and fails the \<open>CHECK\<close> of
  the table at every attempt.\<close>

lemma insert_body_nul_source:
  "faults w = [] \<Longrightarrow> trend_data w = [] \<Longrightarrow>
   insert_trend_data_body example_lib nul_source (lit ''topic'') None None 0 None w
     = (Inl (SqliteError IntegrityError), w)"
  by (simp add: insert_trend_data_body_def generate_content_hash_def utf8_encodable_content_str
      bindable_def is_duplicate_trend_no_fault insert_statement_def get_connection_no_faults)

lemma insert_nul_source_example:
  "insert_trend_data example_lib nul_source (lit ''topic'') None None 0 None empty_world
     = (Inl (SqliteError IntegrityError), empty_world\<lparr>clock := 1001.5\<rparr>)"
proof -
  let ?f = "insert_trend_data_body example_lib nul_source (lit ''topic'') None None 0 None"
  let ?e = "SqliteError IntegrityError"
  have f: "?f (empty_world\<lparr>clock := c\<rparr>) = (Inl ?e, empty_world\<lparr>clock := c\<rparr>)" for c
    by (rule insert_body_nul_source) (simp_all add: empty_world_def)
  have f0: "?f empty_world = (Inl ?e, empty_world)"
    by (rule insert_body_nul_source) (simp_all add: empty_world_def)
  have d: "retry_delay insert_retry 0 = 0.5" "retry_delay insert_retry 1 = 1"
    by (simp_all add: retry_delay_def insert_retry_def)
  have s1: "time_sleep 0.5 empty_world = empty_world\<lparr>clock := 1000.5\<rparr>"
    by (simp add: time_sleep_def empty_world_def)
  have s2: "time_sleep 1 (empty_world\<lparr>clock := 1000.5\<rparr>) = empty_world\<lparr>clock := 1001.5\<rparr>"
    by (simp add: time_sleep_def empty_world_def)
  have third: "retry_loop insert_retry time_sleep ?f 2 (empty_world\<lparr>clock := 1001.5\<rparr>)
      = \<lparr>outcome = Inl ?e, calls = 1, sleeps = [], final = empty_world\<lparr>clock := 1001.5\<rparr>\<rparr>"
  proof (rule retry_loop_last)
    show "(0::int) \<le> 2" by simp
    show "2 = max_attempts insert_retry - 1" by (simp add: insert_retry_fields)
    show "?f (empty_world\<lparr>clock := 1001.5\<rparr>) = (Inl ?e, empty_world\<lparr>clock := 1001.5\<rparr>)"
      by (rule f)
    show "exceptions insert_retry ?e" by (rule insert_retry_fields)
  qed
  have "retry_loop insert_retry time_sleep ?f 1 (empty_world\<lparr>clock := 1000.5\<rparr>)
      = (let r = retry_loop insert_retry time_sleep ?f (1 + 1)
                   (time_sleep (retry_delay insert_retry 1) (empty_world\<lparr>clock := 1000.5\<rparr>))
         in r\<lparr>calls := Suc (calls r), sleeps := retry_delay insert_retry 1 # sleeps r\<rparr>)"
  proof (rule retry_loop_again)
    show "(0::int) \<le> 1" by simp
    show "1 < max_attempts insert_retry - 1" by (simp add: insert_retry_fields)
    show "?f (empty_world\<lparr>clock := 1000.5\<rparr>) = (Inl ?e, empty_world\<lparr>clock := 1000.5\<rparr>)"
      by (rule f)
    show "exceptions insert_retry ?e" by (rule insert_retry_fields)
  qed
  then have second: "retry_loop insert_retry time_sleep ?f 1 (empty_world\<lparr>clock := 1000.5\<rparr>)
      = \<lparr>outcome = Inl ?e, calls = 2, sleeps = [1], final = empty_world\<lparr>clock := 1001.5\<rparr>\<rparr>"
    by (simp only: d s2 one_add_one third Let_def) simp
  have "retry_loop insert_retry time_sleep ?f 0 empty_world
      = (let r = retry_loop insert_retry time_sleep ?f (0 + 1)
                   (time_sleep (retry_delay insert_retry 0) empty_world)
         in r\<lparr>calls := Suc (calls r), sleeps := retry_delay insert_retry 0 # sleeps r\<rparr>)"
  proof (rule retry_loop_again)
    show "(0::int) \<le> 0" by simp
    show "0 < max_attempts insert_retry - 1" by (simp add: insert_retry_fields)
    show "?f empty_world = (Inl ?e, empty_world)" by (rule f0)
    show "exceptions insert_retry ?e" by (rule insert_retry_fields)
  qed
  then have first: "retry_loop insert_retry time_sleep ?f 0 empty_world
      = \<lparr>outcome = Inl ?e, calls = 3, sleeps = [0.5, 1], final = empty_world\<lparr>clock := 1001.5\<rparr>\<rparr>"
    by (simp only: d s1 add_0 second Let_def) simp
  show ?thesis
    by (simp add: insert_trend_data_def retry_wrapper_def first)
qed

text \<open>A content that ends with a lone surrogate passes the validation and cannot be
  hashed.\<close>

lemma insert_surrogate_example:
  "insert_trend_data example_lib (lit ''github'') (lit ''isabelle'') (Some surrogate_content)
     None 5 None empty_world = (Inl UnicodeEncodeError, empty_world)"
proof -
  have "insert_trend_data_body example_lib (lit ''github'') (lit ''isabelle'')
      (Some surrogate_content) None 5 None empty_world = (Inl UnicodeEncodeError, empty_world)"
    by (rule insert_body_unencodable [OF validate_example])
       (simp add: utf8_encodable_content_str bindable_def)
  then show ?thesis
    by (rule insert_trend_data_not_retried) (rule insert_retry_fields)
qed

subsection \<open>The recent-trends query\<close>

lemma row_before_total: "\<not> row_before x y \<Longrightarrow> row_before y x"
  by (auto simp: row_before_def)

lemma row_before_trans: "row_before x y \<Longrightarrow> row_before y z \<Longrightarrow> row_before x z"
  by (auto simp: row_before_def)

lemma set_insert_row: "set (insert_row x rows) = insert x (set rows)"
  by (induction rows) auto

lemma sorted_insert_row:
  "sorted_wrt row_before rows \<Longrightarrow> sorted_wrt row_before (insert_row x rows)"
proof (induction rows)
  case Nil
  then show ?case by simp
next
  case (Cons y ys)
  show ?case
  proof (cases "row_before x y")
    case True
    then have "\<forall>z \<in> set ys. row_before x z"
      using Cons.prems by (auto intro: row_before_trans)
    with True Cons.prems show ?thesis by simp
  next
    case False
    then have "row_before y x" by (rule row_before_total)
    with False Cons show ?thesis by (simp add: set_insert_row)
  qed
qed

lemma set_order_by: "set (order_by rows) = set rows"
  by (induction rows) (simp_all add: order_by_def set_insert_row)

lemma sorted_order_by: "sorted_wrt row_before (order_by rows)"
  by (induction rows) (simp_all add: order_by_def sorted_insert_row)

lemma row_dict_fields [simp]:
  "d_engagement_score (row_dict L r) = t_engagement_score r"
  "d_timestamp (row_dict L r) = t_timestamp r"
  "d_source (row_dict L r) = t_source r"
  by (simp_all add: row_dict_def)

text \<open>What a successful attempt of the query returns.\<close>

lemma get_recent_body_result:
  assumes "get_recent_trend_data_body L hours source limit w = (Inr result, w')"
  shows "\<exists>rows. result = map (row_dict L) rows
           \<and> set rows \<subseteq> set (trend_data w)
           \<and> trend_data w' = trend_data w \<and> clock w' = clock w
           \<and> (\<forall>r \<in> set rows. 0 \<le> hours \<and> t_timestamp r \<ge> sql_now w - hours * 3600)
           \<and> (\<forall>s. source = Some s \<and> s \<noteq> [] \<longrightarrow> (\<forall>r \<in> set rows. t_source r = s))
           \<and> (\<forall>n. limit = Some n \<and> 0 < n \<longrightarrow> int (length rows) \<le> n)
           \<and> sorted_wrt row_before rows"
proof -
  obtain f w1 where c: "get_connection w = (f, w1)" by (cases "get_connection w")
  with assms have f: "f = None"
    by (cases f) (simp_all add: get_recent_trend_data_body_def)
  have w1: "trend_data w1 = trend_data w" "clock w1 = clock w" "sql_now w1 = sql_now w"
    using c by (auto simp: get_connection_def sql_now_def split: list.splits)
  define cutoff where "cutoff = sql_datetime_now_minus w1 hours 3600"
  define keep where "keep = (\<lambda>r::trend_row. (case cutoff of None \<Rightarrow> False | Some c \<Rightarrow> t_timestamp r \<ge> c)
      \<and> (case source of None \<Rightarrow> True | Some s \<Rightarrow> if s = [] then True else t_source r = s))"
  define ordered where "ordered = order_by (filter keep (trend_data w1))"
  define rows where "rows = (case limit of None \<Rightarrow> ordered
      | Some n \<Rightarrow> if n = 0 then ordered else if n < 0 then ordered else take (nat n) ordered)"
  define bad_source where
    "bad_source = (case source of None \<Rightarrow> False | Some s \<Rightarrow> s \<noteq> [] \<and> \<not> utf8_encodable s)"
  define bad_limit where
    "bad_limit = (case limit of None \<Rightarrow> False | Some n \<Rightarrow> n \<noteq> 0 \<and> \<not> sqlite_int64 n)"
  have body: "get_recent_trend_data_body L hours source limit w =
      (if bad_source then (Inl UnicodeEncodeError, w1)
       else if bad_limit then (Inl OverflowError, w1)
       else (Inr (map (row_dict L) rows), w1))"
    using c f unfolding rows_def ordered_def keep_def cutoff_def bad_source_def bad_limit_def
    by (simp add: get_recent_trend_data_body_def Let_def)
  have res: "result = map (row_dict L) rows" and w': "w' = w1"
    using assms body by (cases bad_source; cases bad_limit; simp)+
  have sub: "set rows \<subseteq> set ordered"
    by (auto simp: rows_def split: option.splits dest: in_set_takeD)
  have ord: "set ordered = {r \<in> set (trend_data w). keep r}"
    by (auto simp: ordered_def set_order_by w1)
  have sorted_ordered: "sorted_wrt row_before ordered"
    by (simp add: ordered_def sorted_order_by)
  have sorted_rows: "sorted_wrt row_before rows"
    using sorted_ordered by (auto simp: rows_def sorted_wrt_take split: option.splits)
  have window: "0 \<le> hours \<and> t_timestamp r \<ge> sql_now w - hours * 3600" if "r \<in> set rows" for r
  proof -
    from that sub ord have "keep r" by auto
    then show ?thesis
      by (auto simp: keep_def cutoff_def sql_datetime_now_minus_def w1 split: option.splits if_splits)
  qed
  have src: "t_source r = s" if "source = Some s" "s \<noteq> []" "r \<in> set rows" for r s
  proof -
    from that sub ord have "keep r" by auto
    with that show ?thesis by (simp add: keep_def)
  qed
  have lim: "int (length rows) \<le> n" if "limit = Some n" "0 < n" for n
    using that by (simp add: rows_def)
  from res w' w1 sub ord window src lim sorted_rows show ?thesis
    by (intro exI [of _ rows]) auto
qed

lemma get_recent_body_error:
  "get_recent_trend_data_body L hours source limit w = (Inl e, w')
   \<Longrightarrow> trend_data w' = trend_data w"
  by (auto simp: get_recent_trend_data_body_def get_connection_def Let_def
      split: list.splits option.splits if_splits)

lemma get_recent_trend_data_returns:
  "get_recent_trend_data_body L hours source limit w = (Inr v, w')
   \<Longrightarrow> get_recent_trend_data L hours source limit w = (Inr (Some v), w')"
  by (simp add: get_recent_trend_data_def retry_wrapper_def retry_loop_returns
      get_recent_retry_def)

text \<open>A limit that the truth test or SQLite reads as no limit, and the empty source.\<close>

lemma get_recent_body_no_cap:
  "n \<le> 0 \<Longrightarrow> sqlite_int64 n \<Longrightarrow>
   get_recent_trend_data_body L hours source (Some n) w
     = get_recent_trend_data_body L hours source None w"
  by (auto simp: get_recent_trend_data_body_def Let_def split: prod.splits option.splits)

lemma get_recent_body_empty_source:
  "get_recent_trend_data_body L hours (Some []) limit w
     = get_recent_trend_data_body L hours None limit w"
  by (auto simp: get_recent_trend_data_body_def Let_def split: prod.splits option.splits)

lemma get_recent_no_cap:
  assumes "n \<le> 0" and "sqlite_int64 n"
  shows "get_recent_trend_data L hours source (Some n) w
           = get_recent_trend_data L hours source None w"
proof -
  have "get_recent_trend_data_body L hours source (Some n)
          = get_recent_trend_data_body L hours source None"
    by (rule ext) (rule get_recent_body_no_cap [OF assms])
  then show ?thesis
    by (simp add: get_recent_trend_data_def)
qed

lemma get_recent_empty_source:
  "get_recent_trend_data L hours (Some []) limit w = get_recent_trend_data L hours None limit w"
proof -
  have "get_recent_trend_data_body L hours (Some []) limit
          = get_recent_trend_data_body L hours None limit"
    by (rule ext) (rule get_recent_body_empty_source)
  then show ?thesis
    by (simp add: get_recent_trend_data_def)
qed

lemma example_rows [simp]:
  "row_before hn_row github_row" "\<not> row_before github_row hn_row"
  "t_timestamp github_row = 1000" "t_timestamp hn_row = 1500"
  "t_source github_row = lit ''github''" "t_source hn_row = lit ''hackernews''"
  by (simp_all add: row_before_def github_row_def hn_row_def)

lemma two_world_fields [simp]:
  "trend_data two_world = [github_row, hn_row]" "sql_now two_world = 2000"
  "get_connection two_world = (None, two_world)"
  by (simp_all add: two_world_def sql_now_def get_connection_def)

lemma lit_source_distinct [simp]:
  "lit ''hackernews'' \<noteq> lit ''github''" "lit ''github'' \<noteq> lit ''hackernews''"
  by (simp_all add: lit_def)

lemma get_recent_no_cap_example:
  "get_recent_trend_data example_lib 24 None (Some 0) two_world
     = (Inr (Some [row_dict example_lib hn_row, row_dict example_lib github_row]), two_world)"
  by (rule get_recent_trend_data_returns)
     (simp add: get_recent_trend_data_body_def sql_datetime_now_minus_def order_by_def Let_def)

lemma get_recent_negative_limit_example:
  "get_recent_trend_data example_lib 24 None (Some (- 1)) two_world
     = (Inr (Some [row_dict example_lib hn_row, row_dict example_lib github_row]), two_world)"
  by (rule get_recent_trend_data_returns)
     (simp add: get_recent_trend_data_body_def sql_datetime_now_minus_def order_by_def Let_def
        sqlite_int64_def)

lemma get_recent_empty_source_example:
  "get_recent_trend_data example_lib 24 (Some []) None two_world
     = (Inr (Some [row_dict example_lib hn_row, row_dict example_lib github_row]), two_world)"
  by (rule get_recent_trend_data_returns)
     (simp add: get_recent_trend_data_body_def sql_datetime_now_minus_def order_by_def Let_def)

lemma five_world_fields [simp]:
  "trend_data five_world = [mk_row 1 1000 ''github'' 100, mk_row 2 50000 ''github'' 5,
     mk_row 3 60000 ''hackernews'' 9, mk_row 4 70000 ''github'' 5, mk_row 5 55000 ''github'' 7]"
  "sql_now five_world = 100000"
  "get_connection five_world = (None, five_world)"
  by (simp_all add: five_world_def sql_now_def get_connection_def)

lemma mk_row_fields [simp]:
  "t_timestamp (mk_row i ts src score) = ts" "t_source (mk_row i ts src score) = lit src"
  "t_engagement_score (mk_row i ts src score) = score"
  by (simp_all add: mk_row_def)

lemma get_recent_five_example:
  "get_recent_trend_data example_lib 24 (Some (lit ''github'')) (Some 2) five_world
     = (Inr (Some [row_dict example_lib (mk_row 5 55000 ''github'' 7),
                   row_dict example_lib (mk_row 4 70000 ''github'' 5)]), five_world)"
  by (rule get_recent_trend_data_returns)
     (simp add: get_recent_trend_data_body_def sql_datetime_now_minus_def order_by_def Let_def
        row_before_def sqlite_int64_def)

subsection \<open>Validate-and-clean\<close>

lemma clean_trend_bounds:
  assumes "clean_trend tm trend = Some c"
  shows "2 \<le> length (c_topic c) \<and> length (c_topic c) \<le> 200 \<and> length (c_content c) \<le> 1000
       \<and> length (c_url c) \<le> 500 \<and> 0 \<le> c_engagement_score c"
  using assms
  by (auto simp: clean_trend_def Let_def split: if_splits raw_score.splits option.splits)

lemma set_validate_loop:
  "set (validate_loop tm trends acc)
     = set acc \<union> {c. \<exists>t \<in> set trends. clean_trend tm t = Some c}"
  by (induction trends arbitrary: acc) (auto split: option.splits)

lemma validate_and_clean_negative_example:
  "validate_and_clean_trends 7 [negative_trend]
     = [\<lparr>c_source = lit ''test'', c_topic = lit ''Negative engagement'',
         c_content = lit ''This has negative engagement'', c_url = [],
         c_engagement_score = 0, c_metadata = None, c_collection_time = 7\<rparr>]"
  by (simp add: validate_and_clean_trends_def clean_trend_def negative_trend_def py_truthy_def
      py_str_def py_strip_def py_isspace_def lit_def)

subsection \<open>The batch loop\<close>

lemma more_than_half:
  "(real a > real n * 0.5) = (n < 2 * a)"
proof -
  have "(real a > real n * 0.5) = (real n < real (2 * a))"
    by (simp add: field_simps)
  then show ?thesis
    by (simp only: of_nat_less_iff)
qed

text \<open>The invariant of the loop: the counters count the results kept so far, and every
  insert so far was made while the failures before it were at most half the batch.\<close>

lemma store_loop_invariant:
  assumes "store_loop ins n items stored failed attempted s = (st, fl, lg, s')"
    and "stored = length (filter (\<lambda>r. \<not> isl r) attempted)"
    and "failed = length (filter isl attempted)"
    and "\<forall>k \<le> length attempted. 2 * length (filter isl (take k attempted)) \<le> n"
  shows "st = length (filter (\<lambda>r. \<not> isl r) lg)
       \<and> fl = length (filter isl lg)
       \<and> length lg \<le> length attempted + length items
       \<and> (\<forall>k < length lg. 2 * length (filter isl (take k lg)) \<le> n)
       \<and> (length lg < length attempted + length items \<longrightarrow> n < 2 * fl)
       \<and> (2 * fl \<le> n \<longrightarrow> length lg = length attempted + length items)"
  using assms
proof (induction items arbitrary: stored failed attempted s)
  case Nil
  then show ?case by auto
next
  case (Cons trend rest)
  obtain res s1 where ins: "ins trend s = (res, s1)" by (cases "ins trend s")
  have pre: "\<forall>k \<le> length attempted. 2 * length (filter isl (take k attempted)) \<le> n"
    by (rule Cons.prems(4))
  have all: "2 * length (filter isl attempted) \<le> n"
    using pre by auto
  show ?case
  proof (cases res)
    case (Inr trend_id)
    have run: "store_loop ins n rest (stored + 1) failed (attempted @ [Inr trend_id]) s1
                = (st, fl, lg, s')"
      using Cons.prems(1) ins Inr by simp
    have inv: "\<forall>k \<le> length (attempted @ [Inr trend_id]).
                 2 * length (filter isl (take k (attempted @ [Inr trend_id]))) \<le> n"
    proof (intro allI impI)
      fix k assume "k \<le> length (attempted @ [Inr trend_id])"
      then consider "k \<le> length attempted" | "k = Suc (length attempted)" by fastforce
      then show "2 * length (filter isl (take k (attempted @ [Inr trend_id]))) \<le> n"
      proof cases
        case 1 then show ?thesis using pre by simp
      next
        case 2 then show ?thesis using all by simp
      qed
    qed
    from Cons.IH [OF run _ _ inv] Cons.prems(2,3) show ?thesis by auto
  next
    case (Inl e)
    show ?thesis
    proof (cases "n < 2 * (failed + 1)")
      case True
      then have res: "st = stored" "fl = failed + 1" "lg = attempted @ [Inl e]"
        using Cons.prems(1) ins Inl by (simp_all add: more_than_half Let_def)
      have "\<forall>k < length lg. 2 * length (filter isl (take k lg)) \<le> n"
        using pre res by simp
      then show ?thesis
        using res Cons.prems(2,3) True by auto
    next
      case False
      then have run: "store_loop ins n rest stored (failed + 1) (attempted @ [Inl e]) s1
                       = (st, fl, lg, s')"
        using Cons.prems(1) ins Inl by (simp add: more_than_half Let_def)
      have inv: "\<forall>k \<le> length (attempted @ [Inl e]).
                   2 * length (filter isl (take k (attempted @ [Inl e]))) \<le> n"
      proof (intro allI impI)
        fix k assume "k \<le> length (attempted @ [Inl e])"
        then consider "k \<le> length attempted" | "k = Suc (length attempted)" by fastforce
        then show "2 * length (filter isl (take k (attempted @ [Inl e]))) \<le> n"
        proof cases
          case 1 then show ?thesis using pre by simp
        next
          case 2 then show ?thesis using False Cons.prems(3) by simp
        qed
      qed
      from Cons.IH [OF run _ _ inv] Cons.prems(2,3) show ?thesis by auto
    qed
  qed
qed

lemma github_trend_storable:
  "utf8_encodable (content_str (lit ''github'') (lit ''isabelle'') (Some (lit ''prover'')))"
  "bindable (Some [])"
  by (simp_all add: utf8_encodable_content_str bindable_def)

lemma insert_trend_github_first:
  "insert_trend example_lib github_trend empty_world = (Inr (Some 1), github_world)"
proof -
  have "insert_trend_data_body example_lib (lit ''github'') (lit ''isabelle'')
          (Some (lit ''prover'')) (Some []) 5
          None empty_world = (Inr (int (Suc (trend_data_seq empty_world))),
            empty_world\<lparr>trend_data := trend_data empty_world @
               [new_row example_lib (lit ''github'') (lit ''isabelle'') (Some (lit ''prover''))
                  (Some []) 5 None empty_world],
              trend_data_seq := Suc (trend_data_seq empty_world)\<rparr>)"
    by (rule insert_body_stored [OF validate_example github_trend_storable])
       (simp_all add: empty_world_def)
  then have "insert_trend_data_body example_lib (lit ''github'') (lit ''isabelle'')
          (Some (lit ''prover'')) (Some []) 5 None empty_world = (Inr 1, github_world)"
    by (simp add: github_world_def empty_world_def)
  then show ?thesis
    by (simp add: insert_trend_def github_trend_def insert_trend_data_returns)
qed

lemma insert_trend_github_second:
  "insert_trend example_lib github_trend github_world = (Inr (Some (- 1)), github_world)"
proof -
  have "insert_trend_data_body example_lib (lit ''github'') (lit ''isabelle'')
          (Some (lit ''prover'')) (Some []) 5 None github_world = (Inr (- 1), github_world)"
    by (rule insert_body_duplicate [OF validate_example github_trend_storable(1)])
       (simp_all add: github_world_def empty_world_def new_row_def sql_now_def)
  then show ?thesis
    by (simp add: insert_trend_def github_trend_def insert_trend_data_returns)
qed

lemma insert_trend_blank:
  "insert_trend example_lib blank_trend w = (Inl (ValueError ''Source cannot be empty''), w)"
proof -
  have "insert_trend_data_body example_lib [] (lit ''ab'') (Some []) (Some []) 0 None w
          = (Inl (ValueError ''Source cannot be empty''), w)"
    by (rule insert_body_invalid) (simp add: validate_trend_input_def)
  then show ?thesis
    by (simp add: insert_trend_def blank_trend_def insert_trend_data_not_retried
        insert_retry_fields)
qed

text \<open>The log of the loop is the list of the results of the inserts it made, in the
  order of the batch, each made in the state the one before left.\<close>

lemma insert_results_snoc:
  "insert_results ins (items @ [trend]) s =
     (case insert_results ins items s of
        (xs, s1) \<Rightarrow> (case ins trend s1 of (x, s2) \<Rightarrow> (xs @ [x], s2)))"
  by (induction items arbitrary: s) (auto split: prod.splits)

lemma store_loop_log:
  assumes "store_loop ins n items stored failed attempted s = (st, fl, lg, s')"
    and "insert_results ins done0 s0 = (attempted, s)"
  shows "\<exists>m \<le> length items.
           insert_results ins (done0 @ take m items) s0 = (lg, s')
           \<and> length lg = length attempted + m"
  using assms
proof (induction items arbitrary: stored failed attempted s done0)
  case Nil
  then show ?case by simp
next
  case (Cons trend rest)
  obtain res s1 where ins: "ins trend s = (res, s1)" by (cases "ins trend s")
  have snoc: "insert_results ins (done0 @ [trend]) s0 = (attempted @ [res], s1)"
    using Cons.prems(2) ins by (simp add: insert_results_snoc)
  show ?case
  proof (cases res)
    case (Inr trend_id)
    have run: "store_loop ins n rest (stored + 1) failed (attempted @ [res]) s1
                = (st, fl, lg, s')"
      using Cons.prems(1) ins Inr by simp
    from Cons.IH [OF run snoc] obtain m where
      m: "m \<le> length rest" "insert_results ins ((done0 @ [trend]) @ take m rest) s0 = (lg, s')"
         "length lg = length (attempted @ [res]) + m"
      by blast
    then show ?thesis
      by (intro exI [of _ "Suc m"]) simp
  next
    case (Inl e)
    show ?thesis
    proof (cases "real (failed + 1) > real n * 0.5")
      case True
      then have "lg = attempted @ [res]" "s' = s1"
        using Cons.prems(1) ins Inl by (simp_all add: Let_def)
      then show ?thesis
        using snoc by (intro exI [of _ 1]) simp
    next
      case False
      then have run: "store_loop ins n rest stored (failed + 1) (attempted @ [res]) s1
                       = (st, fl, lg, s')"
        using Cons.prems(1) ins Inl by (simp add: Let_def)
      from Cons.IH [OF run snoc] obtain m where
        m: "m \<le> length rest" "insert_results ins ((done0 @ [trend]) @ take m rest) s0 = (lg, s')"
           "length lg = length (attempted @ [res]) + m"
        by blast
      then show ?thesis
        by (intro exI [of _ "Suc m"]) simp
    qed
  qed
qed

lemma store_loop_tolerated_example:
  "store_loop (insert_trend example_lib) (length [blank_trend, github_trend])
     [blank_trend, github_trend] 0 0 [] empty_world
   = (1, 1, [Inl (ValueError ''Source cannot be empty''), Inr (Some 1)], github_world)"
  by (simp add: insert_trend_blank insert_trend_github_first Let_def)

lemma store_loop_aborted_example:
  "store_loop (insert_trend example_lib)
     (length [blank_trend, blank_trend, blank_trend, github_trend, github_trend])
     [blank_trend, blank_trend, blank_trend, github_trend, github_trend] 0 0 [] empty_world
   = (0, 3, [Inl (ValueError ''Source cannot be empty''), Inl (ValueError ''Source cannot be empty''),
             Inl (ValueError ''Source cannot be empty'')], empty_world)"
  by (simp add: insert_trend_blank Let_def)

section \<open>Claims\<close>

text \<open>
  C1, as amended. For a trend that passes the validation of the store, whose source,
  topic, content and url hold no surrogate code point and whose source and topic do not
  begin with a NUL character (so that SQLite's \<open>LENGTH\<close> of them is positive), in a store
  without storage faults and with no record of the same hash within the last 24 hours:
  the insert stores the record and returns a positive row id; any insert whose
  (source, topic, content) has the same hash, made while less than 86400 seconds have
  passed since the stored record's timestamp, returns -1 and leaves the store as it is;
  from 86400 seconds on the insert of the same (source, topic, content) stores again,
  under a new positive id. The duplicate outcome depends on (source, topic, content)
  only through \<open>generate_content_hash\<close>.
\<close>

theorem insert_stored_then_duplicate_then_stored:
  assumes valid: "validate_trend_input source topic engagement_score = Inr ()"
    and enc: "utf8_encodable source" "utf8_encodable topic" "bindable content"
    and url: "bindable url"
    and nul: "0 < sql_length source" "0 < sql_length topic"
    and nofaults: "faults w = []"
    and fresh: "\<forall>r \<in> set (trend_data w).
                  t_hash_value r = md5 L (content_str source topic content)
                  \<longrightarrow> t_timestamp r \<le> sql_now w - 86400"
  shows "\<exists>id1 w1.
           insert_trend_data L source topic content url engagement_score metadata w
             = (Inr (Some id1), w1)
           \<and> 0 < id1
           \<and> (\<forall>c2 source' topic' content' url' score' metadata'.
                 sql_now w \<le> \<lfloor>c2\<rfloor> \<and> \<lfloor>c2\<rfloor> < sql_now w + 86400
                 \<and> validate_trend_input source' topic' score' = Inr ()
                 \<and> generate_content_hash L source' topic' content'
                     = generate_content_hash L source topic content
                 \<longrightarrow> insert_trend_data L source' topic' content' url' score' metadata'
                       (w1\<lparr>clock := c2\<rparr>)
                     = (Inr (Some (- 1)), w1\<lparr>clock := c2\<rparr>))
           \<and> (\<forall>c3. sql_now w + 86400 \<le> \<lfloor>c3\<rfloor>
                 \<longrightarrow> (\<exists>id3 w3.
                       insert_trend_data L source topic content url engagement_score metadata
                         (w1\<lparr>clock := c3\<rparr>)
                       = (Inr (Some id3), w3)
                       \<and> 0 < id3 \<and> id3 \<noteq> id1
                       \<and> length (trend_data w3) = length (trend_data w) + 2))"
proof -
  let ?h = "md5 L (content_str source topic content)"
  let ?row = "new_row L source topic content url engagement_score metadata w"
  let ?w1 = "w\<lparr>trend_data := trend_data w @ [?row], trend_data_seq := Suc (trend_data_seq w)\<rparr>"
  have e: "utf8_encodable (content_str source topic content)"
    using enc by (simp add: utf8_encodable_content_str)
  have nodup: "\<not> (\<exists>r \<in> set (trend_data w). t_hash_value r = ?h \<and> t_timestamp r > sql_now w - 86400)"
    using fresh by fastforce
  have first: "insert_trend_data L source topic content url engagement_score metadata w
                 = (Inr (Some (int (Suc (trend_data_seq w)))), ?w1)"
    by (rule insert_trend_data_returns)
       (rule insert_body_stored [OF valid e url nul nofaults nodup])
  have row: "t_hash_value ?row = ?h" "t_timestamp ?row = sql_now w"
    by (simp_all add: new_row_def)
  have second: "insert_trend_data L source' topic' content' url' score' metadata' (?w1\<lparr>clock := c2\<rparr>)
                  = (Inr (Some (- 1)), ?w1\<lparr>clock := c2\<rparr>)"
    if win: "sql_now w \<le> \<lfloor>c2\<rfloor>" "\<lfloor>c2\<rfloor> < sql_now w + 86400"
      and v': "validate_trend_input source' topic' score' = Inr ()"
      and h': "generate_content_hash L source' topic' content'
                 = generate_content_hash L source topic content"
    for c2 source' topic' content' url' score' metadata'
  proof -
    have "generate_content_hash L source' topic' content' = Inr ?h"
      using h' e by (simp add: generate_content_hash_encodable)
    then have e': "utf8_encodable (content_str source' topic' content')"
      and m': "md5 L (content_str source' topic' content') = ?h"
      by (auto simp: generate_content_hash_def split: if_splits)
    show ?thesis
    proof (rule insert_trend_data_returns, rule insert_body_duplicate [OF v' e'])
      show "faults (?w1\<lparr>clock := c2\<rparr>) = []" using nofaults by simp
      have "?row \<in> set (trend_data (?w1\<lparr>clock := c2\<rparr>))" by simp
      moreover have "t_hash_value ?row = md5 L (content_str source' topic' content')"
        using row m' by simp
      moreover have "t_timestamp ?row > sql_now (?w1\<lparr>clock := c2\<rparr>) - 86400"
        using row win by simp
      ultimately show "\<exists>r \<in> set (trend_data (?w1\<lparr>clock := c2\<rparr>)).
          t_hash_value r = md5 L (content_str source' topic' content')
          \<and> t_timestamp r > sql_now (?w1\<lparr>clock := c2\<rparr>) - 86400"
        by blast
    qed
  qed
  have third: "\<exists>id3 w3.
        insert_trend_data L source topic content url engagement_score metadata (?w1\<lparr>clock := c3\<rparr>)
          = (Inr (Some id3), w3)
        \<and> 0 < id3 \<and> id3 \<noteq> int (Suc (trend_data_seq w))
        \<and> length (trend_data w3) = length (trend_data w) + 2"
    if late: "sql_now w + 86400 \<le> \<lfloor>c3\<rfloor>" for c3
  proof -
    let ?w2 = "?w1\<lparr>clock := c3\<rparr>"
    have nf: "faults ?w2 = []" using nofaults by simp
    have nd: "\<not> (\<exists>r \<in> set (trend_data ?w2). t_hash_value r = ?h \<and> t_timestamp r > sql_now ?w2 - 86400)"
      using fresh row late by fastforce
    have "insert_trend_data L source topic content url engagement_score metadata ?w2
            = (Inr (Some (int (Suc (trend_data_seq ?w2)))),
               ?w2\<lparr>trend_data := trend_data ?w2
                      @ [new_row L source topic content url engagement_score metadata ?w2],
                    trend_data_seq := Suc (trend_data_seq ?w2)\<rparr>)"
      by (rule insert_trend_data_returns)
         (rule insert_body_stored [OF valid e url nul nf nd])
    then show ?thesis by simp
  qed
  from first second third show ?thesis
    by (intro exI [of _ "int (Suc (trend_data_seq w))"] exI [of _ ?w1]) simp
qed

theorem insert_stored_then_duplicate_then_stored_witness:
  "validate_trend_input (lit ''github'') (lit ''isabelle'') 5 = Inr ()
   \<and> utf8_encodable (lit ''github'') \<and> utf8_encodable (lit ''isabelle'')
   \<and> bindable (Some (lit ''prover'')) \<and> bindable None
   \<and> 0 < sql_length (lit ''github'') \<and> 0 < sql_length (lit ''isabelle'')
   \<and> faults empty_world = []
   \<and> insert_trend_data example_lib (lit ''github'') (lit ''isabelle'') (Some (lit ''prover''))
        None 5 None empty_world = (Inr (Some 1), stored_world)
   \<and> insert_trend_data example_lib (lit ''github'') (lit ''isabelle'') (Some (lit ''prover''))
        None 5 None (stored_world\<lparr>clock := 2000\<rparr>)
      = (Inr (Some (- 1)), stored_world\<lparr>clock := 2000\<rparr>)
   \<and> (\<exists>id3 w3.
         insert_trend_data example_lib (lit ''github'') (lit ''isabelle'') (Some (lit ''prover''))
           None 5 None (stored_world\<lparr>clock := 87400\<rparr>) = (Inr (Some id3), w3)
         \<and> 0 < id3 \<and> id3 \<noteq> 1 \<and> length (trend_data w3) = 2)"
proof -
  let ?s = "lit ''github''" and ?t = "lit ''isabelle''" and ?c = "Some (lit ''prover'')"
  have nofaults: "faults empty_world = []"
    by (simp add: empty_world_def)
  have fresh: "\<forall>r \<in> set (trend_data empty_world).
      t_hash_value r = md5 example_lib (content_str ?s ?t ?c)
      \<longrightarrow> t_timestamp r \<le> sql_now empty_world - 86400"
    by (simp add: empty_world_def)
  have b: "bindable ?c" "bindable None"
    by (simp_all add: bindable_def)
  have now: "sql_now empty_world = 1000" "trend_data empty_world = []"
    by (simp_all add: empty_world_def sql_now_def)
  from insert_stored_then_duplicate_then_stored [OF validate_example utf8_encodable_lit
      utf8_encodable_lit b sql_length_examples(2,3) nofaults fresh, of None]
  obtain id1 w1 where
    first: "insert_trend_data example_lib ?s ?t ?c None 5 None empty_world = (Inr (Some id1), w1)"
    and second: "\<And>c2 source' topic' content' url' score' metadata'.
        sql_now empty_world \<le> \<lfloor>c2\<rfloor> \<and> \<lfloor>c2\<rfloor> < sql_now empty_world + 86400
        \<and> validate_trend_input source' topic' score' = Inr ()
        \<and> generate_content_hash example_lib source' topic' content'
            = generate_content_hash example_lib ?s ?t ?c
        \<Longrightarrow> insert_trend_data example_lib source' topic' content' url' score' metadata'
              (w1\<lparr>clock := c2\<rparr>)
            = (Inr (Some (- 1)), w1\<lparr>clock := c2\<rparr>)"
    and third: "\<And>c3. sql_now empty_world + 86400 \<le> \<lfloor>c3\<rfloor>
        \<Longrightarrow> (\<exists>id3 w3.
              insert_trend_data example_lib ?s ?t ?c None 5 None (w1\<lparr>clock := c3\<rparr>)
              = (Inr (Some id3), w3)
              \<and> 0 < id3 \<and> id3 \<noteq> id1
              \<and> length (trend_data w3) = length (trend_data empty_world) + 2)"
    by blast
  from first have eq: "id1 = 1" "w1 = stored_world"
    by (simp_all add: insert_example_first)
  have s: "insert_trend_data example_lib ?s ?t ?c None 5 None
        (stored_world\<lparr>clock := 2000\<rparr>) = (Inr (Some (- 1)), stored_world\<lparr>clock := 2000\<rparr>)"
    using second [of 2000 ?s ?t 5 ?c None None]
    by (simp add: eq now)
  have t: "\<exists>id3 w3.
         insert_trend_data example_lib ?s ?t ?c None 5 None
           (stored_world\<lparr>clock := 87400\<rparr>) = (Inr (Some id3), w3)
         \<and> 0 < id3 \<and> id3 \<noteq> 1 \<and> length (trend_data w3) = 2"
    using third [of 87400] by (simp add: eq now numeral_2_eq_2)
  from nofaults b s t show ?thesis
    by (simp add: insert_example_first)
qed

text \<open>
  C1 as stated fails for a trend whose source begins with a NUL character: the source
  is not empty, the trend passes the validation and satisfies the storage invariant of
  the specification, and the first insert into the empty store does not store it. The
  \<open>CHECK (LENGTH(source) > 0)\<close> of the table fails at each of the three attempts and
  the insert raises \<open>IntegrityError\<close>. It fails as well for a trend whose content ends
  with a lone surrogate: the first insert raises \<open>UnicodeEncodeError\<close> when it hashes
  the text.
\<close>

theorem insert_not_stored_counterexample:
  "validate_trend_input nul_source (lit ''topic'') 0 = Inr ()
   \<and> spec_valid_for_storage nul_source (lit ''topic'') 0
   \<and> faults empty_world = [] \<and> trend_data empty_world = []
   \<and> fst (insert_trend_data example_lib nul_source (lit ''topic'') None None 0 None empty_world)
       = Inl (SqliteError IntegrityError)
   \<and> trend_data (snd (insert_trend_data example_lib nul_source (lit ''topic'') None None 0 None
        empty_world)) = []
   \<and> validate_trend_input (lit ''github'') (lit ''isabelle'') 5 = Inr ()
   \<and> spec_valid_for_storage (lit ''github'') (lit ''isabelle'') 5
   \<and> insert_trend_data example_lib (lit ''github'') (lit ''isabelle'') (Some surrogate_content)
        None 5 None empty_world = (Inl UnicodeEncodeError, empty_world)"
  by (simp add: insert_nul_source_example insert_surrogate_example spec_valid_for_storage_def)
     (simp add: empty_world_def nul_source_def)

text \<open>
  C2. A whitespace-only source passes the truth test of line 858 and is stripped to the
  empty string afterwards; only the topic is checked after cleaning. The record
  survives with an empty source, which \<open>_validate_trend_input\<close> of the store rejects.
\<close>

theorem validate_and_clean_keeps_blank_source:
  "validate_and_clean_trends 0
     [\<lparr>r_source = Some (lit ''  ''), r_topic = Some (lit ''ab''), r_content = None,
       r_url = None, r_engagement_score = ScoreMissing, r_metadata = (None :: unit option)\<rparr>]
   = [\<lparr>c_source = [], c_topic = lit ''ab'', c_content = [], c_url = [],
       c_engagement_score = 0, c_metadata = None, c_collection_time = 0\<rparr>]"
  by (simp add: validate_and_clean_trends_def clean_trend_def py_truthy_def py_str_def
      py_strip_def py_isspace_def lit_def)

text \<open>
  C3, as amended. The insert raises a \<open>ValueError\<close> of its validation exactly when the
  source is empty or whitespace-only, the topic is empty or whitespace-only, the
  engagement score is negative, the source is longer than 50 characters or the topic is
  longer than 200 characters (lengths before trimming); such an insert leaves the store
  and the fault oracle as they were. A trend that passes the validation and whose
  source, topic or content holds a surrogate code point makes the insert raise
  \<open>UnicodeEncodeError\<close>, a subclass of \<open>ValueError\<close>, at once and with the store as it
  was; the insert raises \<open>UnicodeEncodeError\<close> only for a trend that passes the
  validation and holds a surrogate in its source, topic, content or url, and it stores
  nothing then.
\<close>

theorem insert_rejects_iff:
  "((\<exists>msg. fst (insert_trend_data L source topic content url engagement_score metadata w)
            = Inl (ValueError msg))
    \<longleftrightarrow> (py_strip source = [] \<or> py_strip topic = [] \<or> engagement_score < 0
         \<or> length source > 50 \<or> length topic > 200))
   \<and> ((\<exists>msg. fst (insert_trend_data L source topic content url engagement_score metadata w)
            = Inl (ValueError msg))
      \<longrightarrow> snd (insert_trend_data L source topic content url engagement_score metadata w) = w)
   \<and> (\<not> (py_strip source = [] \<or> py_strip topic = [] \<or> engagement_score < 0
          \<or> length source > 50 \<or> length topic > 200)
        \<and> \<not> (utf8_encodable source \<and> utf8_encodable topic \<and> bindable content)
      \<longrightarrow> insert_trend_data L source topic content url engagement_score metadata w
          = (Inl UnicodeEncodeError, w))
   \<and> (fst (insert_trend_data L source topic content url engagement_score metadata w)
         = Inl UnicodeEncodeError
      \<longrightarrow> \<not> (py_strip source = [] \<or> py_strip topic = [] \<or> engagement_score < 0
             \<or> length source > 50 \<or> length topic > 200)
          \<and> \<not> (utf8_encodable source \<and> utf8_encodable topic \<and> bindable content
                \<and> bindable url)
          \<and> trend_data (snd (insert_trend_data L source topic content url engagement_score
               metadata w)) = trend_data w)"
proof -
  let ?ins = "insert_trend_data L source topic content url engagement_score metadata w"
  let ?body = "insert_trend_data_body L source topic content url engagement_score metadata"
  let ?five = "py_strip source = [] \<or> py_strip topic = [] \<or> engagement_score < 0
         \<or> length source > 50 \<or> length topic > 200"
  let ?run = "retry_loop insert_retry time_sleep ?body 0 w"
  have run: "?ins = (outcome ?run, final ?run)"
    by (simp add: insert_trend_data_def retry_wrapper_def Let_def)
  have raised: "\<exists>s0. trend_data s0 = trend_data w \<and> ?body s0 = (Inl e, final ?run)"
    if "fst ?ins = Inl e" for e
  proof (rule retry_loop_error_from_func [where I = "\<lambda>s. trend_data s = trend_data w"])
    show "outcome ?run = Inl e"
      using that run by simp
    show "trend_data w = trend_data w" ..
    show "trend_data s' = trend_data w"
      if "trend_data s = trend_data w" and "?body s = (Inl e', s')" for s e' s'
      using that by (rule insert_retry_body_keeps_rows)
    show "trend_data (time_sleep d s) = trend_data w" if "trend_data s = trend_data w" for d s
      using that by (simp add: time_sleep_def)
  qed
  show ?thesis
  proof (cases "validate_trend_input source topic engagement_score")
    case (Inl e)
    then obtain msg where e: "e = ValueError msg"
      using validate_trend_input_cases [of source topic engagement_score] by auto
    have "?ins = (Inl (ValueError msg), w)"
      using Inl e
      by (intro insert_trend_data_not_retried insert_body_invalid) (simp_all add: insert_retry_fields)
    moreover have ?five
      using Inl e validate_trend_input_rejects_iff [of source topic engagement_score] by auto
    ultimately show ?thesis by simp
  next
    case (Inr u)
    then have valid: "validate_trend_input source topic engagement_score = Inr ()"
      by simp
    have nofive: "\<not> ?five"
      using Inr validate_trend_input_rejects_iff [of source topic engagement_score] by auto
    have no: "\<not> (\<exists>msg. fst ?ins = Inl (ValueError msg))"
    proof
      assume "\<exists>msg. fst ?ins = Inl (ValueError msg)"
      then obtain msg where "fst ?ins = Inl (ValueError msg)" ..
      from raised [OF this] obtain s0 where "?body s0 = (Inl (ValueError msg), final ?run)"
        by blast
      from insert_body_error [OF this] valid show False by simp
    qed
    have unenc: "?ins = (Inl UnicodeEncodeError, w)"
      if "\<not> (utf8_encodable source \<and> utf8_encodable topic \<and> bindable content)"
    proof (rule insert_trend_data_not_retried)
      show "?body w = (Inl UnicodeEncodeError, w)"
        using that by (intro insert_body_unencodable [OF Inr]) (simp add: utf8_encodable_content_str)
      show "\<not> exceptions insert_retry UnicodeEncodeError"
        by (rule insert_retry_fields)
    qed
    have only: "\<not> (utf8_encodable source \<and> utf8_encodable topic \<and> bindable content
                \<and> bindable url)
          \<and> trend_data (snd ?ins) = trend_data w"
      if "fst ?ins = Inl UnicodeEncodeError"
    proof -
      from raised [OF that] obtain s0 where s0: "trend_data s0 = trend_data w"
        and b: "?body s0 = (Inl UnicodeEncodeError, final ?run)"
        by blast
      from insert_body_error [OF b] s0 run show ?thesis
        by (auto simp: utf8_encodable_content_str)
    qed
    from no nofive unenc only show ?thesis by simp
  qed
qed

theorem insert_rejects_iff_witness:
  "(\<exists>msg. fst (insert_trend_data example_lib long_source (lit ''topic'') None None 0 None
             empty_world) = Inl (ValueError msg))
   \<and> length long_source > 50
   \<and> snd (insert_trend_data example_lib long_source (lit ''topic'') None None 0 None empty_world)
       = empty_world
   \<and> \<not> (py_strip (lit ''github'') = [] \<or> py_strip (lit ''isabelle'') = [] \<or> (5::real) < 0
         \<or> length (lit ''github'') > 50 \<or> length (lit ''isabelle'') > 200)
   \<and> \<not> bindable (Some surrogate_content)
   \<and> insert_trend_data example_lib (lit ''github'') (lit ''isabelle'') (Some surrogate_content)
        None 5 None empty_world = (Inl UnicodeEncodeError, empty_world)"
  using insert_rejects_iff [of example_lib long_source "lit ''topic''" None None 0 None
      empty_world]
    insert_rejects_iff [of example_lib "lit ''github''" "lit ''isabelle''"
      "Some surrogate_content" None 5 None empty_world]
  by (simp add: bindable_def) (simp add: long_source_def)

text \<open>
  C3 as stated fails in both directions: a topic of one character fails the storage
  invariant of the specification and is stored, and a source of 51 characters satisfies
  the invariant and is rejected. A content that holds a lone surrogate is rejected with
  a \<open>ValueError\<close> too, \<open>UnicodeEncodeError\<close>, while the trend satisfies the invariant.
\<close>

theorem insert_rejects_iff_invariant_counterexample:
  "\<not> spec_valid_for_storage (lit ''hn'') (lit ''a'') 0
   \<and> fst (insert_trend_data example_lib (lit ''hn'') (lit ''a'') None None 0 None empty_world)
       = Inr (Some 1)
   \<and> spec_valid_for_storage long_source (lit ''topic'') 0
   \<and> fst (insert_trend_data example_lib long_source (lit ''topic'') None None 0 None empty_world)
       = Inl (ValueError ''Source too long (max 50 characters)'')
   \<and> spec_valid_for_storage (lit ''github'') (lit ''isabelle'') 5
   \<and> fst (insert_trend_data example_lib (lit ''github'') (lit ''isabelle'')
        (Some surrogate_content) None 5 None empty_world) = Inl UnicodeEncodeError"
proof -
  have v: "validate_trend_input (lit ''hn'') (lit ''a'') 0 = Inr ()"
    by (simp add: validate_trend_input_def)
  have "insert_trend_data_body example_lib (lit ''hn'') (lit ''a'') None None 0 None empty_world
      = (Inr (int (Suc (trend_data_seq empty_world))),
         empty_world\<lparr>trend_data := trend_data empty_world
            @ [new_row example_lib (lit ''hn'') (lit ''a'') None None 0 None empty_world],
            trend_data_seq := Suc (trend_data_seq empty_world)\<rparr>)"
    by (rule insert_body_stored [OF v])
       (simp_all add: utf8_encodable_content_str bindable_def empty_world_def)
  then have a: "insert_trend_data_body example_lib (lit ''hn'') (lit ''a'') None None 0 None
      empty_world
      = (Inr 1, empty_world\<lparr>trend_data := trend_data empty_world
            @ [new_row example_lib (lit ''hn'') (lit ''a'') None None 0 None empty_world],
            trend_data_seq := Suc (trend_data_seq empty_world)\<rparr>)"
    by (simp add: empty_world_def)
  have b: "insert_trend_data_body example_lib long_source (lit ''topic'') None None 0 None
      empty_world
      = (Inl (ValueError ''Source too long (max 50 characters)''), empty_world)"
    by (simp add: insert_trend_data_body_def validate_trend_input_def)
       (simp add: long_source_def)
  show ?thesis
    using insert_trend_data_returns [OF a]
      insert_trend_data_not_retried [OF b insert_retry_fields(3)]
    by (simp add: spec_valid_for_storage_def insert_surrogate_example)
       (simp add: long_source_def)
qed

text \<open>
  C4, as amended. The specification has the delay after the k-th failure as
  \<open>min(base_delay * backoff_factor^k, max_delay)\<close>; the code raises the factor to the
  index of the failed attempt, which counts from 0. Amended: for every k from 1 on with
  attempts left, once the first k invocations have failed with a retryable error, the
  delay \<open>min(base_delay * backoff_factor^(k-1), max_delay)\<close> is handed to \<open>sleep\<close> in
  the state the k-th failure left, and invocation k+1 starts in the state that sleep
  leaves.

  In the statement \<open>st j\<close> is the state in which invocation j+1 starts, \<open>af j\<close> the state
  it leaves and \<open>er j\<close> the error it raises. The wrapper behaves as the loop that goes
  on at index k from \<open>st k\<close>, with k more invocations and the k delays put in front; the
  k-th delay it sleeps is the amended one; and what invocation k+1 returns from \<open>st k\<close>
  is what the wrapper returns, after k+1 invocations.
\<close>

theorem retry_delay_after_kth_failure:
  assumes "1 \<le> k" and "int k < max_attempts p" and "st 0 = s"
    and "\<forall>j<k. func (st j) = (Inl (er j), af j) \<and> exceptions p (er j)
               \<and> st (Suc j)
                   = sleep (min (base_delay p * backoff_factor p ^ j) (max_delay p)) (af j)"
  shows "retry_wrapper p sleep func s =
           (retry_loop p sleep func (int k) (st k))
             \<lparr>calls := calls (retry_loop p sleep func (int k) (st k)) + k,
              sleeps := map (\<lambda>j. min (base_delay p * backoff_factor p ^ j) (max_delay p)) [0..<k]
                        @ sleeps (retry_loop p sleep func (int k) (st k))\<rparr>
         \<and> st k = sleep (min (base_delay p * backoff_factor p ^ (k - 1)) (max_delay p))
                    (af (k - 1))
         \<and> sleeps (retry_wrapper p sleep func s) ! (k - 1)
             = min (base_delay p * backoff_factor p ^ (k - 1)) (max_delay p)
         \<and> (\<forall>v s'. func (st k) = (Inr v, s')
              \<longrightarrow> outcome (retry_wrapper p sleep func s) = Inr (Some v)
                  \<and> calls (retry_wrapper p sleep func s) = k + 1
                  \<and> final (retry_wrapper p sleep func s) = s')"
proof -
  let ?r = "retry_loop p sleep func (int k) (st k)"
  let ?d = "\<lambda>j. min (base_delay p * backoff_factor p ^ j) (max_delay p)"
  have d: "retry_delay p (int j) = ?d j" for j
    by (simp add: retry_delay_def)
  have run: "retry_wrapper p sleep func s =
      ?r\<lparr>calls := calls ?r + k, sleeps := map ?d [0..<k] @ sleeps ?r\<rparr>"
    using retry_loop_after_failures [of st s k p func er af sleep] assms(2,3,4)
    by (simp add: retry_wrapper_def d)
  have last: "st k = sleep (?d (k - 1)) (af (k - 1))"
  proof -
    have "k - 1 < k" using assms(1) by simp
    with assms(4) have "st (Suc (k - 1)) = sleep (?d (k - 1)) (af (k - 1))"
      by blast
    then show ?thesis using assms(1) by simp
  qed
  have nth: "sleeps (retry_wrapper p sleep func s) ! (k - 1) = ?d (k - 1)"
  proof -
    have lt: "k - 1 < length (map ?d [0..<k])" using assms(1) by simp
    have "sleeps (retry_wrapper p sleep func s) ! (k - 1) = map ?d [0..<k] ! (k - 1)"
      using lt by (simp add: run nth_append del: length_map map_eq_conv)
    also have "\<dots> = ?d (k - 1)"
      using assms(1) by (simp del: upt_Suc)
    finally show ?thesis .
  qed
  have ret: "outcome (retry_wrapper p sleep func s) = Inr (Some v)
           \<and> calls (retry_wrapper p sleep func s) = k + 1
           \<and> final (retry_wrapper p sleep func s) = s'"
    if "func (st k) = (Inr v, s')" for v s'
  proof -
    have "?r = \<lparr>outcome = Inr (Some v), calls = 1, sleeps = [], final = s'\<rparr>"
      using assms(2) that by (intro retry_loop_returns) simp_all
    then show ?thesis
      by (simp add: run)
  qed
  from run last nth ret show ?thesis by blast
qed

theorem retry_delay_after_kth_failure_witness:
  "(1::nat) \<le> 2 \<and> int 2 < max_attempts insert_retry
   \<and> flaky (0, 0) = (Inl (SqliteError OperationalError), (1, 0))
   \<and> flaky (clock_sleep 0.5 (1, 0)) = (Inl (SqliteError OperationalError), (2, 0.5))
   \<and> flaky (clock_sleep 1 (2, 0.5)) = (Inr 42, (3, 1.5))
   \<and> min (base_delay insert_retry * backoff_factor insert_retry ^ (2 - 1))
          (max_delay insert_retry) = 1
   \<and> sleeps (retry_wrapper insert_retry clock_sleep flaky (0, 0)) ! (2 - 1) = 1
   \<and> outcome (retry_wrapper insert_retry clock_sleep flaky (0, 0)) = Inr (Some 42)
   \<and> calls (retry_wrapper insert_retry clock_sleep flaky (0, 0)) = 3
   \<and> final (retry_wrapper insert_retry clock_sleep flaky (0, 0)) = (3, 1.5)"
proof -
  let ?st = "\<lambda>j::nat. (j, if j = 0 then 0 else if j = 1 then 0.5 else (1.5::real))"
  let ?af = "\<lambda>j::nat. (Suc j, if j = 0 then 0 else (0.5::real))"
  let ?er = "\<lambda>j::nat. SqliteError OperationalError"
  let ?run = "retry_wrapper insert_retry clock_sleep flaky (0, 0)"
  have a: "(1::nat) \<le> 2" by simp
  have b: "int 2 < max_attempts insert_retry"
    by (simp add: insert_retry_fields)
  have c: "?st 0 = (0, 0)" by simp
  have d: "\<forall>j<2. flaky (?st j) = (Inl (?er j), ?af j) \<and> exceptions insert_retry (?er j)
               \<and> ?st (Suc j)
                   = clock_sleep (min (base_delay insert_retry * backoff_factor insert_retry ^ j)
                       (max_delay insert_retry)) (?af j)"
    by (simp add: insert_retry_def flaky_def clock_sleep_def numeral_2_eq_2 less_Suc_eq)
  note t = retry_delay_after_kth_failure [of 2 insert_retry ?st "(0, 0)" flaky ?er ?af
      clock_sleep, OF a b c d]
  have e: "flaky (?st 2) = (Inr 42, (3, 1.5))"
    by (simp add: flaky_def)
  from t e have ret: "outcome ?run = Inr (Some 42) \<and> calls ?run = 2 + 1 \<and> final ?run = (3, 1.5)"
    by blast
  from t have nth: "sleeps ?run ! (2 - 1)
      = min (base_delay insert_retry * backoff_factor insert_retry ^ (2 - 1))
          (max_delay insert_retry)"
    by blast
  have m: "min (base_delay insert_retry * backoff_factor insert_retry ^ (2 - 1))
          (max_delay insert_retry) = 1"
    by (simp add: insert_retry_def)
  have f: "flaky (0, 0) = (Inl (SqliteError OperationalError), (1, 0))"
    "flaky (clock_sleep 0.5 (1, 0)) = (Inl (SqliteError OperationalError), (2, 0.5))"
    "flaky (clock_sleep 1 (2, 0.5)) = (Inr 42, (3, 1.5))"
    by (simp_all add: flaky_def clock_sleep_def)
  from a b ret nth m f show ?thesis
    by simp
qed

text \<open>C4 as stated fails on the first delay: with base delay 0.5 and factor 2 the wrapper
  sleeps 0.5 after the first failure, not 1, and 1 after the second, not 2; the clock
  that the sleeps advance stands at 1.5 in the end, not at 3.\<close>

theorem retry_delay_exponent_counterexample:
  "sleeps (retry_wrapper insert_retry clock_sleep flaky (0, 0)) = [0.5, 1]
   \<and> sleeps (retry_wrapper insert_retry clock_sleep flaky (0, 0)) ! (1 - 1)
       \<noteq> min (base_delay insert_retry * backoff_factor insert_retry ^ 1) (max_delay insert_retry)
   \<and> final (retry_wrapper insert_retry clock_sleep flaky (0, 0)) = (3, 1.5)"
  by (simp only: flaky_run insert_retry_delay) simp

text \<open>
  C5. The adaptive delay is computed inside the branch that waits for the base
  interval. A gate call that arrives 1.2 seconds after the previous one, with interval 1
  and three counted errors, does not sleep at all: the gap stays 1.2 seconds, less than
  the interval plus 1.5.
\<close>

theorem rate_limit_check_no_adaptive_delay:
  "rate_limit_check ''test_source'' late_collector
     = late_collector\<lparr>last_request_times := [''test_source'' \<mapsto> 101.2]\<rparr>"
  by (simp add: rate_limit_check_def late_collector_def Let_def)

text \<open>
  C6. With one row of \<open>trend_data\<close> older than 30 days, \<open>cleanup_old_data(30)\<close> runs
  the \<open>DELETE\<close> and then \<open>VACUUM\<close> in the transaction the \<open>DELETE\<close> opened: the call raises
  \<open>OperationalError\<close>, the deletion is rolled back and the old row stays.
\<close>

theorem cleanup_old_data_raises_on_old_row:
  "cleanup_old_data 30 old_world = (Inl (SqliteError OperationalError), old_world)"
  by (simp add: cleanup_old_data_def get_connection_def sql_datetime_now_minus_def
      sql_now_def sql_lt_def old_row_def old_world_def Let_def)

text \<open>
  C7. With \<open>max_attempts = 3\<close>: an operation that raises a retryable error twice and
  then returns makes the wrapper return that value after exactly three invocations; an
  operation that raises a retryable error three times makes the wrapper raise the third
  error after exactly three invocations; an error outside the retryable classification
  leaves the wrapper after the first invocation. The second and third invocation start
  from the state the sleep before them left.
\<close>

theorem retry_three_attempts:
  assumes "max_attempts p = 3"
  shows "(func sa = (Inl ea, sb) \<and> exceptions p ea
            \<and> func (sleep (retry_delay p 0) sb) = (Inl eb, sc) \<and> exceptions p eb
            \<and> func (sleep (retry_delay p 1) sc) = (Inr v, sd)
          \<longrightarrow> outcome (retry_wrapper p sleep func sa) = Inr (Some v)
              \<and> calls (retry_wrapper p sleep func sa) = 3
              \<and> final (retry_wrapper p sleep func sa) = sd)
       \<and> (func sa = (Inl ea, sb) \<and> exceptions p ea
            \<and> func (sleep (retry_delay p 0) sb) = (Inl eb, sc) \<and> exceptions p eb
            \<and> func (sleep (retry_delay p 1) sc) = (Inl ec, sd) \<and> exceptions p ec
          \<longrightarrow> outcome (retry_wrapper p sleep func sa) = Inl ec
              \<and> calls (retry_wrapper p sleep func sa) = 3
              \<and> final (retry_wrapper p sleep func sa) = sd)
       \<and> (func sa = (Inl ea, sb) \<and> \<not> exceptions p ea
          \<longrightarrow> outcome (retry_wrapper p sleep func sa) = Inl ea
              \<and> calls (retry_wrapper p sleep func sa) = 1
              \<and> final (retry_wrapper p sleep func sa) = sb)"
proof (intro conjI impI)
  assume h: "func sa = (Inl ea, sb) \<and> exceptions p ea
            \<and> func (sleep (retry_delay p 0) sb) = (Inl eb, sc) \<and> exceptions p eb
            \<and> func (sleep (retry_delay p 1) sc) = (Inr v, sd)"
  have third: "retry_loop p sleep func 2 (sleep (retry_delay p 1) sc)
      = \<lparr>outcome = Inr (Some v), calls = 1, sleeps = [], final = sd\<rparr>"
    using h assms by (intro retry_loop_returns) simp_all
  have second: "retry_loop p sleep func 1 (sleep (retry_delay p 0) sb)
      = \<lparr>outcome = Inr (Some v), calls = 2, sleeps = [retry_delay p 1], final = sd\<rparr>"
    using retry_loop_again [of 1 p func "sleep (retry_delay p 0) sb" eb sc sleep] h assms third
    by (simp add: Let_def)
  have first: "retry_loop p sleep func 0 sa
      = \<lparr>outcome = Inr (Some v), calls = 3, sleeps = [retry_delay p 0, retry_delay p 1], final = sd\<rparr>"
    using retry_loop_again [of 0 p func sa ea sb sleep] h assms second
    by (simp add: Let_def)
  show "outcome (retry_wrapper p sleep func sa) = Inr (Some v)"
    and "calls (retry_wrapper p sleep func sa) = 3"
    and "final (retry_wrapper p sleep func sa) = sd"
    by (simp_all add: retry_wrapper_def first)
next
  assume h: "func sa = (Inl ea, sb) \<and> exceptions p ea
            \<and> func (sleep (retry_delay p 0) sb) = (Inl eb, sc) \<and> exceptions p eb
            \<and> func (sleep (retry_delay p 1) sc) = (Inl ec, sd) \<and> exceptions p ec"
  have third: "retry_loop p sleep func 2 (sleep (retry_delay p 1) sc)
      = \<lparr>outcome = Inl ec, calls = 1, sleeps = [], final = sd\<rparr>"
    using h assms by (intro retry_loop_last) simp_all
  have second: "retry_loop p sleep func 1 (sleep (retry_delay p 0) sb)
      = \<lparr>outcome = Inl ec, calls = 2, sleeps = [retry_delay p 1], final = sd\<rparr>"
    using retry_loop_again [of 1 p func "sleep (retry_delay p 0) sb" eb sc sleep] h assms third
    by (simp add: Let_def)
  have first: "retry_loop p sleep func 0 sa
      = \<lparr>outcome = Inl ec, calls = 3, sleeps = [retry_delay p 0, retry_delay p 1], final = sd\<rparr>"
    using retry_loop_again [of 0 p func sa ea sb sleep] h assms second
    by (simp add: Let_def)
  show "outcome (retry_wrapper p sleep func sa) = Inl ec"
    and "calls (retry_wrapper p sleep func sa) = 3"
    and "final (retry_wrapper p sleep func sa) = sd"
    by (simp_all add: retry_wrapper_def first)
next
  assume h: "func sa = (Inl ea, sb) \<and> \<not> exceptions p ea"
  have first: "retry_loop p sleep func 0 sa
      = \<lparr>outcome = Inl ea, calls = 1, sleeps = [], final = sb\<rparr>"
    using h assms by (intro retry_loop_not_retryable) simp_all
  show "outcome (retry_wrapper p sleep func sa) = Inl ea"
    and "calls (retry_wrapper p sleep func sa) = 1"
    and "final (retry_wrapper p sleep func sa) = sb"
    by (simp_all add: retry_wrapper_def first)
qed

theorem retry_three_attempts_witness:
  "max_attempts insert_retry = 3
   \<and> outcome (retry_wrapper insert_retry no_sleep fails_twice 0) = Inr (Some 42)
   \<and> calls (retry_wrapper insert_retry no_sleep fails_twice 0) = 3
   \<and> final (retry_wrapper insert_retry no_sleep fails_twice 0) = 3
   \<and> outcome (retry_wrapper insert_retry no_sleep always_fails 0) = Inl (SqliteError OperationalError)
   \<and> calls (retry_wrapper insert_retry no_sleep always_fails 0) = 3
   \<and> outcome (retry_wrapper insert_retry no_sleep fails_invalid 0) = Inl (ValueError ''bad'')
   \<and> calls (retry_wrapper insert_retry no_sleep fails_invalid 0) = 1"
  using
    retry_three_attempts [OF insert_retry_fields(1), where func = fails_twice and sa = 0
      and sleep = no_sleep and ea = "SqliteError OperationalError" and sb = 1
      and eb = "SqliteError OperationalError" and sc = 2 and v = 42 and sd = 3]
    retry_three_attempts [OF insert_retry_fields(1), where func = always_fails and sa = 0
      and sleep = no_sleep and ea = "SqliteError OperationalError" and sb = 1
      and eb = "SqliteError OperationalError" and sc = 2
      and ec = "SqliteError OperationalError" and sd = 3]
    retry_three_attempts [OF insert_retry_fields(1), where func = fails_invalid and sa = 0
      and sleep = no_sleep and ea = "ValueError ''bad''" and sb = 1]
  by (simp add: insert_retry_fields fails_twice_def always_fails_def fails_invalid_def no_sleep_def)

text \<open>
  C8, as amended. Whenever the recent-trends query returns rows: every row is a row of
  \<open>trend_data\<close> whose timestamp is at most \<open>hours\<close> hours before the time of the query
  (and \<open>hours\<close> is not negative); with a non-empty source given every row has that
  source; with a positive limit given there are at most that many rows; the rows are
  ordered by engagement score descending, then timestamp descending, so the engagement
  scores never increase along the result. A limit of 0, or a negative limit that fits
  64 bits, puts no cap on the result: the query does what it does with no limit given.
  An empty source string filters nothing: the query does what it does with no source
  given.
\<close>

theorem get_recent_trend_data_result:
  "(\<forall>result w'. get_recent_trend_data L hours source limit w = (Inr (Some result), w')
      \<longrightarrow> (\<forall>d \<in> set result. \<exists>r \<in> set (trend_data w).
               d = row_dict L r \<and> 0 \<le> hours \<and> t_timestamp r \<ge> sql_now w' - hours * 3600)
          \<and> (\<forall>s. source = Some s \<and> s \<noteq> [] \<longrightarrow> (\<forall>d \<in> set result. d_source d = s))
          \<and> (\<forall>n. limit = Some n \<and> 0 < n \<longrightarrow> int (length result) \<le> n)
          \<and> sorted_wrt (\<lambda>a b. d_engagement_score a > d_engagement_score b
                         \<or> (d_engagement_score a = d_engagement_score b
                             \<and> d_timestamp a \<ge> d_timestamp b)) result
          \<and> sorted_wrt (\<lambda>a b. d_engagement_score a \<ge> d_engagement_score b) result)
   \<and> (\<forall>n. n \<le> 0 \<and> sqlite_int64 n
        \<longrightarrow> get_recent_trend_data L hours source (Some n) w
            = get_recent_trend_data L hours source None w)
   \<and> get_recent_trend_data L hours (Some []) limit w
       = get_recent_trend_data L hours None limit w"
proof (intro conjI allI impI)
  fix result w'
  assume ret: "get_recent_trend_data L hours source limit w = (Inr (Some result), w')"
  let ?run = "retry_loop get_recent_retry time_sleep
                (get_recent_trend_data_body L hours source limit) 0 w"
  have out: "outcome ?run = Inr (Some result)" and fin: "final ?run = w'"
    using ret by (simp_all add: get_recent_trend_data_def retry_wrapper_def Let_def)
  have "\<exists>s0. trend_data s0 = trend_data w
          \<and> get_recent_trend_data_body L hours source limit s0 = (Inr result, final ?run)"
    by (rule retry_loop_value_from_func [OF out])
       (auto simp: time_sleep_def dest: get_recent_body_error)
  then obtain s0 where s0: "trend_data s0 = trend_data w"
    and body: "get_recent_trend_data_body L hours source limit s0 = (Inr result, w')"
    using fin by auto
  from get_recent_body_result [OF body] obtain rows where
    res: "result = map (row_dict L) rows"
    and sub: "set rows \<subseteq> set (trend_data s0)"
    and clk: "clock w' = clock s0"
    and window: "\<forall>r \<in> set rows. 0 \<le> hours \<and> t_timestamp r \<ge> sql_now s0 - hours * 3600"
    and src: "\<forall>s. source = Some s \<and> s \<noteq> [] \<longrightarrow> (\<forall>r \<in> set rows. t_source r = s)"
    and lim: "\<forall>n. limit = Some n \<and> 0 < n \<longrightarrow> int (length rows) \<le> n"
    and sorted_rows: "sorted_wrt row_before rows"
    by blast
  have now: "sql_now w' = sql_now s0"
    using clk by (simp add: sql_now_def)
  show "\<forall>d \<in> set result. \<exists>r \<in> set (trend_data w).
             d = row_dict L r \<and> 0 \<le> hours \<and> t_timestamp r \<ge> sql_now w' - hours * 3600"
    using res sub window s0 now by auto
  show "\<forall>d \<in> set result. d_source d = s" if "source = Some s \<and> s \<noteq> []" for s
    using res src that by auto
  show "int (length result) \<le> n" if "limit = Some n \<and> 0 < n" for n
    using res lim that by simp
  show d: "sorted_wrt (\<lambda>a b. d_engagement_score a > d_engagement_score b
                      \<or> (d_engagement_score a = d_engagement_score b
                          \<and> d_timestamp a \<ge> d_timestamp b)) result"
    using sorted_rows by (simp add: res sorted_wrt_map row_before_def [abs_def])
  show "sorted_wrt (\<lambda>a b. d_engagement_score a \<ge> d_engagement_score b) result"
    by (rule sorted_wrt_mono_rel [OF _ d]) auto
next
  fix n :: int
  assume "n \<le> 0 \<and> sqlite_int64 n"
  then show "get_recent_trend_data L hours source (Some n) w
            = get_recent_trend_data L hours source None w"
    by (simp add: get_recent_no_cap)
next
  show "get_recent_trend_data L hours (Some []) limit w
       = get_recent_trend_data L hours None limit w"
    by (rule get_recent_empty_source)
qed

text \<open>
  The witness: of five rows, the query for the source \<open>github\<close> over 24 hours with limit
  2 leaves out the row of the highest score, which is older than 24 hours, and the row
  of the other source, orders the three rows left by score and then by timestamp, and
  cuts the last of them; with the limit -1, and with the limit 0 and the source \<open>''\<close>,
  the query over two rows is the query with no limit and no source.
\<close>

theorem get_recent_trend_data_result_witness:
  "get_recent_trend_data example_lib 24 (Some (lit ''github'')) (Some 2) five_world
     = (Inr (Some [row_dict example_lib (mk_row 5 55000 ''github'' 7),
                   row_dict example_lib (mk_row 4 70000 ''github'' 5)]), five_world)
   \<and> lit ''github'' \<noteq> []
   \<and> d_source (row_dict example_lib (mk_row 5 55000 ''github'' 7)) = lit ''github''
   \<and> d_source (row_dict example_lib (mk_row 4 70000 ''github'' 5)) = lit ''github''
   \<and> sql_now five_world - 24 * 3600 \<le> 55000
   \<and> int (length [row_dict example_lib (mk_row 5 55000 ''github'' 7),
                   row_dict example_lib (mk_row 4 70000 ''github'' 5)]) \<le> 2
   \<and> (- 1 :: int) \<le> 0 \<and> sqlite_int64 (- 1)
   \<and> get_recent_trend_data example_lib 24 None (Some (- 1)) two_world
       = get_recent_trend_data example_lib 24 None None two_world
   \<and> get_recent_trend_data example_lib 24 None None two_world
       = (Inr (Some [row_dict example_lib hn_row, row_dict example_lib github_row]), two_world)
   \<and> get_recent_trend_data example_lib 24 (Some []) (Some 0) two_world
       = get_recent_trend_data example_lib 24 None None two_world"
proof -
  have a: "sqlite_int64 (- 1)" "sqlite_int64 0"
    by (simp_all add: sqlite_int64_def)
  have b: "get_recent_trend_data example_lib 24 None None two_world
       = (Inr (Some [row_dict example_lib hn_row, row_dict example_lib github_row]), two_world)"
    using get_recent_trend_data_result [of example_lib 24 None "Some (- 1)" two_world] a
      get_recent_negative_limit_example
    by simp
  have c: "get_recent_trend_data example_lib 24 (Some []) (Some 0) two_world
       = get_recent_trend_data example_lib 24 None None two_world"
    using get_recent_trend_data_result [of example_lib 24 None "Some 0" two_world]
      get_recent_trend_data_result [of example_lib 24 "Some []" "Some 0" two_world] a
    by simp
  show ?thesis
    using get_recent_trend_data_result [of example_lib 24 "Some (lit ''github'')" "Some 2"
        five_world]
      get_recent_trend_data_result [of example_lib 24 None "Some (- 1)" two_world]
      get_recent_five_example a b c
    by simp
qed

text \<open>
  C8 as stated fails for a limit of 0 and for an empty source string: both are given,
  and \<open>if limit:\<close> and \<open>if source:\<close> read them as absent. With two rows in the window the
  query with limit 0 returns both, and the query with source \<open>''\<close> returns rows of other
  sources.
\<close>

theorem get_recent_trend_data_cap_counterexample:
  "fst (get_recent_trend_data example_lib 24 None (Some 0) two_world)
     = Inr (Some [row_dict example_lib hn_row, row_dict example_lib github_row])
   \<and> \<not> int (length [row_dict example_lib hn_row, row_dict example_lib github_row]) \<le> 0
   \<and> fst (get_recent_trend_data example_lib 24 (Some []) None two_world)
     = Inr (Some [row_dict example_lib hn_row, row_dict example_lib github_row])
   \<and> d_source (row_dict example_lib hn_row) \<noteq> []"
  by (simp add: get_recent_no_cap_example get_recent_empty_source_example)

text \<open>
  C9. The loop adds 1 to \<open>stored_count\<close> whenever the insert returns, also when it
  returns the duplicate sentinel -1. A batch that holds the same trend twice, stored
  into the empty store, returns 2, while one record is stored.
\<close>

theorem store_trends_batch_counts_duplicate_as_stored:
  "store_trends_batch example_lib [github_trend, github_trend] empty_world = (2, github_world)
   \<and> length (trend_data github_world) = 1
   \<and> insert_trend example_lib github_trend github_world = (Inr (Some (- 1)), github_world)"
proof -
  have "store_trends_batch example_lib [github_trend, github_trend] empty_world
          = (2, github_world)"
    by (simp add: store_trends_batch_def insert_trend_github_first insert_trend_github_second)
  then show ?thesis
    by (simp add: insert_trend_github_second) (simp add: github_world_def)
qed



section \<open>Further properties\<close>

text \<open>
  Validate-and-clean: every record that survives has a
  topic of 2 to 200 characters, a content of at most 1000 characters, a url of at most
  500 characters and an engagement score that is not negative.
\<close>

theorem validate_and_clean_bounds:
  "\<forall>c \<in> set (validate_and_clean_trends tm trends).
     2 \<le> length (c_topic c) \<and> length (c_topic c) \<le> 200 \<and> length (c_content c) \<le> 1000
     \<and> length (c_url c) \<le> 500 \<and> 0 \<le> c_engagement_score c"
  by (auto simp: validate_and_clean_trends_def set_validate_loop dest: clean_trend_bounds)

theorem validate_and_clean_bounds_witness:
  "validate_and_clean_trends 7 [negative_trend]
     = [\<lparr>c_source = lit ''test'', c_topic = lit ''Negative engagement'',
         c_content = lit ''This has negative engagement'', c_url = [],
         c_engagement_score = 0, c_metadata = None, c_collection_time = 7\<rparr>]
   \<and> (2::nat) \<le> length (lit ''Negative engagement'')
   \<and> length (lit ''Negative engagement'') \<le> (200::nat)"
  using validate_and_clean_bounds [of 7 "[negative_trend]"]
  by (simp add: validate_and_clean_negative_example)

text \<open>
  The rate limiter: after the gate the recorded time of the source is the
  clock, and it lies at least the minimum interval after the previous recorded time. A
  call that arrives before the interval has elapsed, with a positive error count, ends
  exactly the interval plus \<open>min(error_count * 0.5, 5.0)\<close> after the previous one; a
  call that arrives later does not sleep.
\<close>

theorem rate_limit_check_gap:
  "last_request_times (rate_limit_check source c) source = Some (now (rate_limit_check source c))
   \<and> now (rate_limit_check source c)
        - (case last_request_times c source of None \<Rightarrow> 0 | Some t \<Rightarrow> t)
       \<ge> (case min_request_intervals c source of None \<Rightarrow> 1 | Some i \<Rightarrow> i)
   \<and> (now c - (case last_request_times c source of None \<Rightarrow> 0 | Some t \<Rightarrow> t)
         < (case min_request_intervals c source of None \<Rightarrow> 1 | Some i \<Rightarrow> i)
        \<and> (case api_status c source of None \<Rightarrow> 0 | Some st \<Rightarrow> error_count st) > 0
      \<longrightarrow> now (rate_limit_check source c)
            - (case last_request_times c source of None \<Rightarrow> 0 | Some t \<Rightarrow> t)
          = (case min_request_intervals c source of None \<Rightarrow> 1 | Some i \<Rightarrow> i)
            + min (real_of_int (case api_status c source of None \<Rightarrow> 0
                                 | Some st \<Rightarrow> error_count st) * 0.5) 5.0)
   \<and> (\<not> now c - (case last_request_times c source of None \<Rightarrow> 0 | Some t \<Rightarrow> t)
         < (case min_request_intervals c source of None \<Rightarrow> 1 | Some i \<Rightarrow> i)
      \<longrightarrow> now (rate_limit_check source c) = now c)"
  by (auto simp: rate_limit_check_def Let_def min_def)

theorem rate_limit_check_gap_witness:
  "now (rate_limit_check ''test_source'' early_collector) = 102.5
   \<and> last_request_times (rate_limit_check ''test_source'' early_collector) ''test_source''
       = Some 102.5
   \<and> now (rate_limit_check ''test_source'' late_collector) = now late_collector"
  using rate_limit_check_gap [of "''test_source''" early_collector]
    rate_limit_check_gap [of "''test_source''" late_collector]
  by (simp add: early_collector_def late_collector_def)

text \<open>
  What \<open>cleanup_old_data\<close> does when the connection meets no fault: it returns (all
  counts 0, store unchanged) exactly when no table holds a record older than its
  threshold (\<open>days\<close> for trends and publish attempts, twice that for analyses), and
  raises \<open>OperationalError\<close> with the store unchanged otherwise.
\<close>

theorem cleanup_old_data_outcome:
  assumes "faults w = []"
  shows "cleanup_old_data days w =
           (if nothing_to_clean days w
            then (Inr \<lparr>trend_data_deleted = 0, trend_analysis_deleted = 0,
                       published_content_deleted = 0\<rparr>, w)
            else (Inl (SqliteError OperationalError), w))"
proof -
  have c: "get_connection w = (None, w)"
    using assms by (rule get_connection_no_faults)
  show ?thesis
  proof (cases "nothing_to_clean days w")
    case True
    then show ?thesis
      using c by (simp add: cleanup_old_data_def nothing_to_clean_def Let_def)
  next
    case False
    then show ?thesis
      using c by (auto simp: cleanup_old_data_def nothing_to_clean_def Let_def)
  qed
qed

theorem cleanup_old_data_outcome_witness:
  "faults old_world = []
   \<and> \<not> nothing_to_clean 30 old_world
   \<and> cleanup_old_data 30 old_world = (Inl (SqliteError OperationalError), old_world)
   \<and> nothing_to_clean 40 old_world
   \<and> cleanup_old_data 40 old_world
       = (Inr \<lparr>trend_data_deleted = 0, trend_analysis_deleted = 0,
               published_content_deleted = 0\<rparr>, old_world)"
proof -
  have f: "faults old_world = []"
    by (simp add: old_world_def)
  have a: "\<not> nothing_to_clean 30 old_world"
    by (simp add: nothing_to_clean_def old_world_def old_row_def sql_lt_def
        sql_datetime_now_minus_def sql_now_def)
  have b: "nothing_to_clean 40 old_world"
    by (simp add: nothing_to_clean_def old_world_def old_row_def sql_lt_def
        sql_datetime_now_minus_def sql_now_def)
  show ?thesis
    using cleanup_old_data_outcome [OF f, of 30] cleanup_old_data_outcome [OF f, of 40] f a b
    by simp
qed

text \<open>
  The batch loop, for any insert operation: \<open>attempted\<close> holds the results of the
  inserts of the first items of the batch, made in order, each in the state the one
  before left, and \<open>s'\<close> is the state after the last of them (\<open>Inl\<close> is a raised
  exception). The counters count the inserts that returned and those that raised. Every
  insert was made while the failures before it were at most half the batch; the loop
  leaves items unattempted only once the failures exceed half the batch, and with at
  most half the batch failing every item is attempted.
\<close>

theorem store_loop_tolerates_failures:
  assumes "store_loop ins (length items) items 0 0 [] s
             = (stored_count, failed_count, attempted, s')"
  shows "insert_results ins (take (length attempted) items) s = (attempted, s')
       \<and> stored_count = length (filter (\<lambda>r. \<not> isl r) attempted)
       \<and> failed_count = length (filter isl attempted)
       \<and> length attempted \<le> length items
       \<and> (\<forall>k < length attempted. 2 * length (filter isl (take k attempted)) \<le> length items)
       \<and> (length attempted < length items \<longrightarrow> length items < 2 * failed_count)
       \<and> (2 * failed_count \<le> length items \<longrightarrow> length attempted = length items)"
proof -
  from store_loop_log [OF assms, of "[]" s] obtain m where
    "insert_results ins (take m items) s = (attempted, s')" "length attempted = m"
    by auto
  then have "insert_results ins (take (length attempted) items) s = (attempted, s')"
    by simp
  then show ?thesis
    using store_loop_invariant [OF assms] by auto
qed

theorem store_loop_tolerates_failures_witness:
  "store_loop (insert_trend example_lib) (length [blank_trend, github_trend])
     [blank_trend, github_trend] 0 0 [] empty_world
     = (1, 1, [Inl (ValueError ''Source cannot be empty''), Inr (Some 1)], github_world)
   \<and> insert_results (insert_trend example_lib) [blank_trend, github_trend] empty_world
       = ([Inl (ValueError ''Source cannot be empty''), Inr (Some 1)], github_world)
   \<and> 2 * (1::nat) \<le> length [blank_trend, github_trend]
   \<and> length [Inl (ValueError ''Source cannot be empty''), Inr (Some (1::int))]
       = length [blank_trend, github_trend]
   \<and> store_loop (insert_trend example_lib)
       (length [blank_trend, blank_trend, blank_trend, github_trend, github_trend])
       [blank_trend, blank_trend, blank_trend, github_trend, github_trend] 0 0 [] empty_world
     = (0, 3, [Inl (ValueError ''Source cannot be empty''),
               Inl (ValueError ''Source cannot be empty''),
               Inl (ValueError ''Source cannot be empty'')], empty_world)
   \<and> (3::nat) < length [blank_trend, blank_trend, blank_trend, github_trend, github_trend]
   \<and> length [blank_trend, blank_trend, blank_trend, github_trend, github_trend] < 2 * 3"
  using store_loop_tolerates_failures [OF store_loop_tolerated_example]
    store_loop_tolerates_failures [OF store_loop_aborted_example]
    store_loop_tolerated_example store_loop_aborted_example
  by simp

end
